theory Spec2Isabelle
  imports Complex_Main
begin

section \<open>The Palletizer API client (\<open>client.go\<close>)\<close>

text \<open>
  The package is a typed HTTP client: it marshals a \<open>PackingRequest\<close> to JSON, posts it to
  \<open>/api/v1/pack\<close>, and unmarshals the answer into a \<open>PackingResponse\<close>. It also offers two
  pallet presets and four unit conversions.

  \<open>Health\<close> and \<open>Metrics\<close>, two GET calls with no request body, are left out.

  Go's \<open>int\<close> is \<open>int\<close>; the client does no arithmetic on it.
\<close>

subsection \<open>Floating-point numbers\<close>

text \<open>
  A \<open>float64\<close> is a finite number, negative zero, an infinity or NaN. \<open>Finite x\<close> is the
  finite value that denotes the real number \<open>x\<close>, \<open>Finite 0\<close> being the positive zero.
  \<open>float64_eq\<close> is Go's \<open>==\<close> on two of them: the two zeros are equal, NaN equals nothing.
\<close>

datatype float64 = Finite real | NegZero | PosInf | NegInf | NaN

fun float64_eq :: "float64 \<Rightarrow> float64 \<Rightarrow> bool" where
  "float64_eq (Finite x) (Finite y) = (x = y)"
| "float64_eq (Finite x) NegZero = (x = 0)"
| "float64_eq NegZero (Finite y) = (y = 0)"
| "float64_eq NegZero NegZero = True"
| "float64_eq PosInf PosInf = True"
| "float64_eq NegInf NegInf = True"
| "float64_eq _ _ = False"

text \<open>
  Where the source writes a decimal literal or multiplies and divides, Go rounds the exact
  result to the nearest \<open>float64\<close>. The rounding is the parameter \<open>rnd\<close> of the presets and
  the conversions below: \<open>exact\<close> reads them over exact arithmetic, \<open>binary64\<close> as Go
  computes them. \<open>binary64\<close> rounds to 53 significant bits, ties to the even neighbour, with
  the exponent not below that of the subnormal numbers; \<open>float64_overflow\<close> holds of the
  numbers that round beyond the largest \<open>float64\<close>, to an infinity.
\<close>

definition exact :: "real \<Rightarrow> real" where
  "exact x = x"

definition round_half_even :: "real \<Rightarrow> int" where
  "round_half_even x =
     (let n = \<lfloor>x\<rfloor>; d = x - of_int n
      in if d < 1 / 2 then n else if 1 / 2 < d then n + 1 else if even n then n else n + 1)"

text \<open>The unit in the last place of the numbers between \<open>2 ^ e\<close> and \<open>2 ^ (e + 1)\<close>.\<close>

definition ulp :: "int \<Rightarrow> real" where
  "ulp e = (if 52 \<le> e then 2 ^ nat (e - 52) else 1 / 2 ^ nat (52 - e))"

definition binary64 :: "real \<Rightarrow> real" where
  "binary64 x =
     (if x = 0 then 0
      else let u = ulp (max \<lfloor>log 2 \<bar>x\<bar>\<rfloor> (- 1022))
           in of_int (round_half_even (x / u)) * u)"

definition float64_overflow :: "real \<Rightarrow> bool" where
  "float64_overflow x = (2 ^ 1024 - 2 ^ 970 \<le> \<bar>x\<bar>)"

subsection \<open>Errors\<close>

text \<open>
  A Go \<open>error\<close> is one of the two sentinel errors of package \<open>context\<close>, a plain message
  or, when built by \<open>fmt.Errorf\<close> with the verb \<open>%w\<close>, a message together with the error
  it wraps. \<open>error_text\<close> is the method \<open>Error()\<close> and \<open>Unwrap\<close> is \<open>errors.Unwrap\<close>.
  \<open>errors_Is err target\<close> is \<open>errors.Is\<close> for a sentinel target: \<open>err\<close>, or an error down
  its chain of \<open>Unwrap\<close>, is the sentinel itself; an error made elsewhere with the same
  message is not.
\<close>

datatype sentinel = context_Canceled | context_DeadlineExceeded

datatype error = Sentinel sentinel | ErrorString string | WrapError string error

fun error_text :: "error \<Rightarrow> string" where
  "error_text (Sentinel context_Canceled) = ''context canceled''"
| "error_text (Sentinel context_DeadlineExceeded) = ''context deadline exceeded''"
| "error_text (ErrorString s) = s"
| "error_text (WrapError s _) = s"

fun Unwrap :: "error \<Rightarrow> error option" where
  "Unwrap (WrapError _ e) = Some e"
| "Unwrap _ = None"

fun errors_Is :: "error \<Rightarrow> sentinel \<Rightarrow> bool" where
  "errors_Is (Sentinel s) target = (s = target)"
| "errors_Is (ErrorString _) target = False"
| "errors_Is (WrapError _ e) target = errors_Is e target"

text \<open>\<open>fmt.Errorf(prefix + "%w", err)\<close>.\<close>

definition Errorf_w :: "string \<Rightarrow> error \<Rightarrow> error" where
  "Errorf_w prefix err = WrapError (prefix @ error_text err) err"

text \<open>The verb \<open>%d\<close> of \<open>fmt\<close>: an integer in decimal.\<close>

function show_nat :: "nat \<Rightarrow> string" where
  "show_nat n =
     (if n < 10 then [''0123456789'' ! n]
      else show_nat (n div 10) @ [''0123456789'' ! (n mod 10)])"
  by pat_completeness auto
termination
  by (relation "measure id") auto

declare show_nat.simps [simp del]

definition show_int :: "int \<Rightarrow> string" where
  "show_int i = (if i < 0 then CHR ''-'' # show_nat (nat (- i)) else show_nat (nat i))"

subsection \<open>JSON values\<close>

text \<open>
  A JSON document as \<open>encoding/json\<close> sees it between text and Go values. An object keeps
  its members in order, with duplicates. A number is \<open>JInt\<close> when its literal is an integer
  literal (\<open>30\<close>, \<open>-7\<close>), \<open>JMinusZero\<close> being the integer literal \<open>-0\<close>, and \<open>JFloat\<close> when it
  has a fraction or an exponent (\<open>30.0\<close>, \<open>1e2\<close>): the decoder accepts only the former two
  for a field of type \<open>int\<close>. In a document that was read, \<open>JFloat f\<close> holds what
  \<open>strconv.ParseFloat\<close> makes of the literal: the nearest \<open>float64\<close>, the negative zero
  for a negative literal that rounds to zero, an infinity for a literal beyond the range.
  In a document to be written, it holds the \<open>float64\<close> of a Go value.
\<close>

datatype json =
    JNull
  | JBool bool
  | JInt int
  | JMinusZero
  | JFloat float64
  | JString string
  | JArray "json list"
  | JObject "(string \<times> json) list"

subsection \<open>Contexts, requests and responses of \<open>net/http\<close>\<close>

text \<open>
  A \<open>context.Context\<close> is the nil interface, a context that is still live, or one that is done
  with the sentinel error its \<open>Err()\<close> reports, \<open>context.Canceled\<close> after a cancellation.
\<close>

datatype Context = NoContext | Background | Done sentinel

record Request =
  Method :: string
  URL :: string
  Header :: "(string \<times> string) list"
  Body :: string
  Ctx :: Context

text \<open>
  Of an \<open>http.Response\<close> the client reads the status code and the body. \<open>Body\<close> is what
  \<open>io.ReadAll(resp.Body)\<close> yields: all the bytes, or the error that interrupted the read.
\<close>

record Response =
  StatusCode :: int
  Body :: "error + string"

definition http_StatusOK :: int where
  "http_StatusOK = 200"

text \<open>\<open>Header.Set\<close>: the key's earlier values are replaced.\<close>

definition Header_Set :: "(string \<times> string) list \<Rightarrow> string \<Rightarrow> string \<Rightarrow> (string \<times> string) list" where
  "Header_Set h k v = (k, v) # filter (\<lambda>kv. fst kv \<noteq> k) h"

text \<open>
  The parts of the standard library that work on the characters of a text are parameters
  of the model: \<open>url_Parse\<close> is the error of \<open>url.Parse\<close>, if any; \<open>strconv_FormatFloat\<close>
  writes a finite \<open>float64\<close> other than zero as \<open>encoding/json\<close> does (the shortest decimal
  that reads back as the same number); \<open>json_quote\<close> writes a string as a JSON string, with
  its quotes and escapes; \<open>json_scan\<close> reads a text as a JSON value, and fails on a text
  that is not valid JSON.
\<close>

record stdlib =
  url_Parse :: "string \<Rightarrow> error option"
  strconv_FormatFloat :: "real \<Rightarrow> string"
  json_quote :: "string \<Rightarrow> string"
  json_scan :: "string \<Rightarrow> error + json"

text \<open>
  \<open>http.NewRequestWithContext\<close>: a nil context and a URL that does not parse are errors
  (the method, always \<open>POST\<close> here, is valid); the new request has no header yet.
\<close>

definition http_NewRequestWithContext ::
  "stdlib \<Rightarrow> Context \<Rightarrow> string \<Rightarrow> string \<Rightarrow> string \<Rightarrow> error + Request" where
  "http_NewRequestWithContext std ctx method url body =
     (if ctx = NoContext then Inl (ErrorString ''net/http: nil Context'')
      else case url_Parse std url of
        Some err \<Rightarrow> Inl err
      | None \<Rightarrow> Inr \<lparr>Method = method, URL = url, Header = [], Body = body, Ctx = ctx\<rparr>)"

subsection \<open>The client\<close>

text \<open>
  \<open>type Client struct\<close>. The field \<open>httpClient\<close> is the \<open>*http.Client\<close>, modelled by its method
  \<open>Do\<close>: a request is answered by a response or by an error.
\<close>

record Client =
  baseURL :: string
  httpClient :: "Request \<Rightarrow> error + Response"

definition NewWithHTTPClient :: "string \<Rightarrow> (Request \<Rightarrow> error + Response) \<Rightarrow> Client" where
  "NewWithHTTPClient url h = \<lparr>baseURL = url, httpClient = h\<rparr>"

subsection \<open>Request types\<close>

text \<open>
  The structs of the source, field by field. A slice is a list option: \<open>None\<close> is the nil
  slice, which \<open>encoding/json\<close> writes as \<open>null\<close>, and \<open>Some []\<close> the empty one, written \<open>[]\<close>.
\<close>

record Carton =
  ID :: string
  Length :: float64
  Width :: float64
  Height :: float64
  Weight :: float64
  Quantity :: int
  Fragile :: bool
  AllowRotation :: bool

record PalletConstraints =
  MaxLength :: float64
  MaxWidth :: float64
  MaxHeight :: float64
  MaxWeight :: float64

record PackingOptions =
  SupportPercentage :: float64

record PackingRequest =
  Cartons :: "Carton list option"
  PalletConstraints :: PalletConstraints
  PackingOptions :: PackingOptions

subsection \<open>Response types\<close>

record Point3D =
  X :: float64
  Y :: float64
  Z :: float64

record Dimensions =
  Length :: float64
  Width :: float64
  Height :: float64

record PlacedCarton =
  CartonID :: string
  Position :: Point3D
  Dimensions :: Dimensions
  Orientation :: string
  Weight :: float64

record Pallet =
  PalletID :: int
  TotalWeight :: float64
  TotalHeight :: float64
  UtilizationPercentage :: float64
  Cartons :: "PlacedCarton list option"
  CenterOfGravity :: Point3D

record PackingSummary =
  TotalPallets :: int
  TotalCartonsPacked :: int
  AverageUtilization :: float64
  ComputationTimeMs :: int

record PackingResponse =
  Pallets :: "Pallet list option"
  Summary :: PackingSummary
  Error :: string

subsection \<open>Marshalling the request\<close>

text \<open>
  \<open>json.Marshal\<close> writes a struct as an object whose members are the struct's fields, in
  the order of declaration, each under the name of its \<open>json:"..."\<close> tag. None of the
  request's fields is tagged \<open>omitempty\<close>.
\<close>

definition marshal_Carton :: "Carton \<Rightarrow> json" where
  "marshal_Carton c = JObject
     [(''id'', JString (ID c)),
      (''length'', JFloat (Carton.Length c)),
      (''width'', JFloat (Carton.Width c)),
      (''height'', JFloat (Carton.Height c)),
      (''weight'', JFloat (Carton.Weight c)),
      (''quantity'', JInt (Quantity c)),
      (''fragile'', JBool (Fragile c)),
      (''allow_rotation'', JBool (AllowRotation c))]"

definition marshal_PalletConstraints :: "PalletConstraints \<Rightarrow> json" where
  "marshal_PalletConstraints p = JObject
     [(''max_length'', JFloat (MaxLength p)),
      (''max_width'', JFloat (MaxWidth p)),
      (''max_height'', JFloat (MaxHeight p)),
      (''max_weight'', JFloat (MaxWeight p))]"

definition marshal_PackingOptions :: "PackingOptions \<Rightarrow> json" where
  "marshal_PackingOptions opts = JObject
     [(''support_percentage'', JFloat (SupportPercentage opts))]"

definition marshal_PackingRequest :: "PackingRequest \<Rightarrow> json" where
  "marshal_PackingRequest r = JObject
     [(''cartons'',
         (case PackingRequest.Cartons r of
            None \<Rightarrow> JNull
          | Some cs \<Rightarrow> JArray (map marshal_Carton cs))),
      (''pallet_constraints'', marshal_PalletConstraints (PalletConstraints r)),
      (''packing_options'', marshal_PackingOptions (PackingOptions r))]"

text \<open>
  A \<open>float64\<close> is written by \<open>floatEncoder\<close>: \<open>json.Marshal\<close> refuses an infinity and NaN
  with an \<open>UnsupportedValueError\<close>, and writes the two zeros as \<open>0\<close> and \<open>-0\<close>.
\<close>

definition UnsupportedValueError :: "string \<Rightarrow> error" where
  "UnsupportedValueError s = ErrorString (''json: unsupported value: '' @ s)"

fun floatEncoder :: "stdlib \<Rightarrow> float64 \<Rightarrow> error + string" where
  "floatEncoder std (Finite x) = Inr (if x = 0 then ''0'' else strconv_FormatFloat std x)"
| "floatEncoder std NegZero = Inr ''-0''"
| "floatEncoder std PosInf = Inl (UnsupportedValueError ''+Inf'')"
| "floatEncoder std NegInf = Inl (UnsupportedValueError ''-Inf'')"
| "floatEncoder std NaN = Inl (UnsupportedValueError ''NaN'')"

text \<open>
  The text of a JSON value, compact: the members of an object and the elements of an array
  in order, separated by commas. The first value that cannot be written is the error.
\<close>

fun commas :: "string list \<Rightarrow> string" where
  "commas [] = []"
| "commas [t] = t"
| "commas (t # ts) = t @ '','' @ commas ts"

fun json_write :: "stdlib \<Rightarrow> json \<Rightarrow> error + string"
  and json_write_elems :: "stdlib \<Rightarrow> json list \<Rightarrow> error + string list"
  and json_write_members :: "stdlib \<Rightarrow> (string \<times> json) list \<Rightarrow> error + string list" where
  "json_write std JNull = Inr ''null''"
| "json_write std (JBool b) = Inr (if b then ''true'' else ''false'')"
| "json_write std (JInt i) = Inr (show_int i)"
| "json_write std JMinusZero = Inr ''-0''"
| "json_write std (JFloat f) = floatEncoder std f"
| "json_write std (JString s) = Inr (json_quote std s)"
| "json_write std (JArray js) =
     (case json_write_elems std js of
        Inl e \<Rightarrow> Inl e
      | Inr ts \<Rightarrow> Inr (''['' @ commas ts @ '']''))"
| "json_write std (JObject kvs) =
     (case json_write_members std kvs of
        Inl e \<Rightarrow> Inl e
      | Inr ts \<Rightarrow> Inr (''{'' @ commas ts @ ''}''))"
| "json_write_elems std [] = Inr []"
| "json_write_elems std (j # js) =
     (case json_write std j of
        Inl e \<Rightarrow> Inl e
      | Inr t \<Rightarrow>
          (case json_write_elems std js of
             Inl e \<Rightarrow> Inl e
           | Inr ts \<Rightarrow> Inr (t # ts)))"
| "json_write_members std [] = Inr []"
| "json_write_members std ((k, j) # kvs) =
     (case json_write std j of
        Inl e \<Rightarrow> Inl e
      | Inr t \<Rightarrow>
          (case json_write_members std kvs of
             Inl e \<Rightarrow> Inl e
           | Inr ts \<Rightarrow> Inr ((json_quote std k @ '':'' @ t) # ts)))"

text \<open>\<open>json.Marshal(request)\<close>, for \<open>request *PackingRequest\<close>: a nil pointer is \<open>null\<close>.\<close>

definition json_Marshal :: "stdlib \<Rightarrow> PackingRequest option \<Rightarrow> error + string" where
  "json_Marshal std request =
     json_write std (case request of None \<Rightarrow> JNull | Some r \<Rightarrow> marshal_PackingRequest r)"

subsection \<open>Unmarshalling the response\<close>

text \<open>
  \<open>json.Unmarshal\<close> stores a JSON value into a Go value that already exists. \<open>null\<close> leaves
  a number, a string or a struct as it is; a value of the wrong kind is an
  \<open>UnmarshalTypeError\<close>, and the call then returns an error (its text is abridged here).
\<close>

fun json_kind :: "json \<Rightarrow> string" where
  "json_kind JNull = ''null''"
| "json_kind (JBool _) = ''bool''"
| "json_kind (JInt _) = ''number''"
| "json_kind JMinusZero = ''number''"
| "json_kind (JFloat _) = ''number''"
| "json_kind (JString _) = ''string''"
| "json_kind (JArray _) = ''array''"
| "json_kind (JObject _) = ''object''"

definition UnmarshalTypeError :: "json \<Rightarrow> string \<Rightarrow> error" where
  "UnmarshalTypeError j ty =
     ErrorString (''json: cannot unmarshal '' @ json_kind j @ '' into Go value of type '' @ ty)"

text \<open>
  A number is stored into a \<open>float64\<close> as \<open>strconv.ParseFloat\<close> reads its literal, and
  refused when the literal is beyond the range of \<open>float64\<close>: when what was read is an
  infinity, or a number that rounds to one.
\<close>

fun unmarshal_float64 :: "json \<Rightarrow> float64 \<Rightarrow> error + float64" where
  "unmarshal_float64 JNull v = Inr v"
| "unmarshal_float64 (JInt i) v =
     (if float64_overflow (of_int i) then Inl (UnmarshalTypeError (JInt i) ''float64'')
      else Inr (Finite (binary64 (of_int i))))"
| "unmarshal_float64 JMinusZero v = Inr NegZero"
| "unmarshal_float64 (JFloat (Finite x)) v =
     (if float64_overflow x then Inl (UnmarshalTypeError (JFloat (Finite x)) ''float64'')
      else Inr (Finite x))"
| "unmarshal_float64 (JFloat NegZero) v = Inr NegZero"
| "unmarshal_float64 j v = Inl (UnmarshalTypeError j ''float64'')"

text \<open>Go's \<open>int\<close> is taken 64 bits wide: an integer literal beyond its range is refused.\<close>

fun unmarshal_int :: "json \<Rightarrow> int \<Rightarrow> error + int" where
  "unmarshal_int JNull v = Inr v"
| "unmarshal_int (JInt i) v =
     (if - (2 ^ 63) \<le> i \<and> i < 2 ^ 63 then Inr i else Inl (UnmarshalTypeError (JInt i) ''int''))"
| "unmarshal_int JMinusZero v = Inr 0"
| "unmarshal_int j v = Inl (UnmarshalTypeError j ''int'')"

fun unmarshal_string :: "json \<Rightarrow> string \<Rightarrow> error + string" where
  "unmarshal_string JNull v = Inr v"
| "unmarshal_string (JString s) v = Inr s"
| "unmarshal_string j v = Inl (UnmarshalTypeError j ''string'')"

text \<open>
  A member of an object is stored into the field whose tag is the member's name, or, when
  no tag is, into the field whose tag equals the name up to case (\<open>foldName\<close>: ASCII
  letters in upper case, and the two letters beyond ASCII that fold to an ASCII one,
  U+017F to \<open>S\<close> and U+212A to \<open>K\<close>, in UTF-8). A member that matches no field is skipped.
\<close>

definition upper :: "char \<Rightarrow> char" where
  "upper c =
     (case map_of (zip ''abcdefghijklmnopqrstuvwxyz'' ''ABCDEFGHIJKLMNOPQRSTUVWXYZ'') c of
        Some u \<Rightarrow> u
      | None \<Rightarrow> c)"

fun foldName :: "string \<Rightarrow> string" where
  "foldName (a # b # c # cs) =
     (if a = CHR 0xE2 \<and> b = CHR 0x84 \<and> c = CHR 0xAA then CHR ''K'' # foldName cs
      else if a = CHR 0xC5 \<and> b = CHR 0xBF then CHR ''S'' # foldName (c # cs)
      else upper a # foldName (b # c # cs))"
| "foldName [a, b] =
     (if a = CHR 0xC5 \<and> b = CHR 0xBF then [CHR ''S''] else upper a # foldName [b])"
| "foldName [a] = [upper a]"
| "foldName [] = []"

definition find_field :: "(string \<times> 'f) list \<Rightarrow> string \<Rightarrow> 'f option" where
  "find_field tbl key =
     (case find (\<lambda>f. fst f = key) tbl of
        Some f \<Rightarrow> Some (snd f)
      | None \<Rightarrow> map_option snd (find (\<lambda>f. foldName (fst f) = foldName key) tbl))"

text \<open>
  The members of an object are stored from left to right, each into the value the earlier
  ones have left: of a repeated name the last occurrence wins, field by field.
\<close>

fun unmarshal_members ::
  "(string \<times> (json \<Rightarrow> 'a \<Rightarrow> error + 'a)) list \<Rightarrow> (string \<times> json) list \<Rightarrow> 'a \<Rightarrow> error + 'a" where
  "unmarshal_members tbl [] v = Inr v"
| "unmarshal_members tbl ((k, j) # kvs) v =
     (case find_field tbl k of
        None \<Rightarrow> unmarshal_members tbl kvs v
      | Some store \<Rightarrow>
          (case store j v of
             Inl e \<Rightarrow> Inl e
           | Inr v' \<Rightarrow> unmarshal_members tbl kvs v'))"

definition unmarshal_struct ::
  "string \<Rightarrow> (string \<times> (json \<Rightarrow> 'a \<Rightarrow> error + 'a)) list \<Rightarrow> json \<Rightarrow> 'a \<Rightarrow> error + 'a" where
  "unmarshal_struct ty tbl j v =
     (case j of
        JNull \<Rightarrow> Inr v
      | JObject kvs \<Rightarrow> unmarshal_members tbl kvs v
      | _ \<Rightarrow> Inl (UnmarshalTypeError j ty))"

text \<open>
  An array is stored into a slice element by element: into the element the slice already
  has at that index, or into a zero value beyond its length; the slice ends up as long as
  the array, and non-nil even when empty. \<open>null\<close> sets a slice to nil. (Go may also reuse
  what an earlier, longer value of the slice left in its spare capacity; this needs a
  name to occur three times in one object and is not modelled.)
\<close>

fun unmarshal_elems ::
  "(json \<Rightarrow> 'a \<Rightarrow> error + 'a) \<Rightarrow> 'a \<Rightarrow> json list \<Rightarrow> 'a list \<Rightarrow> error + 'a list" where
  "unmarshal_elems elem zero [] old = Inr []"
| "unmarshal_elems elem zero (j # js) old =
     (case elem j (case old of [] \<Rightarrow> zero | x # _ \<Rightarrow> x) of
        Inl e \<Rightarrow> Inl e
      | Inr x \<Rightarrow>
          (case unmarshal_elems elem zero js (tl old) of
             Inl e \<Rightarrow> Inl e
           | Inr xs \<Rightarrow> Inr (x # xs)))"

definition unmarshal_slice ::
  "string \<Rightarrow> (json \<Rightarrow> 'a \<Rightarrow> error + 'a) \<Rightarrow> 'a \<Rightarrow> json \<Rightarrow> 'a list option \<Rightarrow> error + 'a list option" where
  "unmarshal_slice ty elem zero j v =
     (case j of
        JNull \<Rightarrow> Inr None
      | JArray js \<Rightarrow>
          (case unmarshal_elems elem zero js (case v of None \<Rightarrow> [] | Some xs \<Rightarrow> xs) of
             Inl e \<Rightarrow> Inl e
           | Inr xs \<Rightarrow> Inr (Some xs))
      | _ \<Rightarrow> Inl (UnmarshalTypeError j ty))"

text \<open>Storing a decoded field: the struct is updated when the field's value decoded.\<close>

definition stored :: "error + 'b \<Rightarrow> ('b \<Rightarrow> 'a) \<Rightarrow> error + 'a" where
  "stored r upd = (case r of Inl e \<Rightarrow> Inl e | Inr x \<Rightarrow> Inr (upd x))"

text \<open>
  The response structs: for each, its zero value and its fields by tag, in the order of
  declaration.
\<close>

definition zero_Point3D :: Point3D where
  "zero_Point3D = \<lparr>X = Finite 0, Y = Finite 0, Z = Finite 0\<rparr>"

definition Point3D_fields :: "(string \<times> (json \<Rightarrow> Point3D \<Rightarrow> error + Point3D)) list" where
  "Point3D_fields =
     [(''x'', \<lambda>j v. stored (unmarshal_float64 j (X v)) (\<lambda>x. v\<lparr>X := x\<rparr>)),
      (''y'', \<lambda>j v. stored (unmarshal_float64 j (Y v)) (\<lambda>x. v\<lparr>Y := x\<rparr>)),
      (''z'', \<lambda>j v. stored (unmarshal_float64 j (Z v)) (\<lambda>x. v\<lparr>Z := x\<rparr>))]"

definition unmarshal_Point3D :: "json \<Rightarrow> Point3D \<Rightarrow> error + Point3D" where
  "unmarshal_Point3D = unmarshal_struct ''client.Point3D'' Point3D_fields"

definition zero_Dimensions :: Dimensions where
  "zero_Dimensions = \<lparr>Dimensions.Length = Finite 0, Width = Finite 0, Height = Finite 0\<rparr>"

definition Dimensions_fields :: "(string \<times> (json \<Rightarrow> Dimensions \<Rightarrow> error + Dimensions)) list" where
  "Dimensions_fields =
     [(''length'', \<lambda>j v. stored (unmarshal_float64 j (Dimensions.Length v))
                             (\<lambda>x. v\<lparr>Dimensions.Length := x\<rparr>)),
      (''width'', \<lambda>j v. stored (unmarshal_float64 j (Dimensions.Width v))
                            (\<lambda>x. v\<lparr>Dimensions.Width := x\<rparr>)),
      (''height'', \<lambda>j v. stored (unmarshal_float64 j (Dimensions.Height v))
                             (\<lambda>x. v\<lparr>Dimensions.Height := x\<rparr>))]"

definition unmarshal_Dimensions :: "json \<Rightarrow> Dimensions \<Rightarrow> error + Dimensions" where
  "unmarshal_Dimensions = unmarshal_struct ''client.Dimensions'' Dimensions_fields"

definition zero_PlacedCarton :: PlacedCarton where
  "zero_PlacedCarton =
     \<lparr>CartonID = [], Position = zero_Point3D, Dimensions = zero_Dimensions,
      Orientation = [], Weight = Finite 0\<rparr>"

definition PlacedCarton_fields ::
  "(string \<times> (json \<Rightarrow> PlacedCarton \<Rightarrow> error + PlacedCarton)) list" where
  "PlacedCarton_fields =
     [(''carton_id'', \<lambda>j v. stored (unmarshal_string j (CartonID v)) (\<lambda>x. v\<lparr>CartonID := x\<rparr>)),
      (''position'', \<lambda>j v. stored (unmarshal_Point3D j (Position v)) (\<lambda>x. v\<lparr>Position := x\<rparr>)),
      (''dimensions'', \<lambda>j v. stored (unmarshal_Dimensions j (Dimensions v))
                                 (\<lambda>x. v\<lparr>Dimensions := x\<rparr>)),
      (''orientation'', \<lambda>j v. stored (unmarshal_string j (Orientation v))
                                  (\<lambda>x. v\<lparr>Orientation := x\<rparr>)),
      (''weight'', \<lambda>j v. stored (unmarshal_float64 j (PlacedCarton.Weight v))
                             (\<lambda>x. v\<lparr>PlacedCarton.Weight := x\<rparr>))]"

definition unmarshal_PlacedCarton :: "json \<Rightarrow> PlacedCarton \<Rightarrow> error + PlacedCarton" where
  "unmarshal_PlacedCarton = unmarshal_struct ''client.PlacedCarton'' PlacedCarton_fields"

definition zero_Pallet :: Pallet where
  "zero_Pallet =
     \<lparr>PalletID = 0, TotalWeight = Finite 0, TotalHeight = Finite 0,
      UtilizationPercentage = Finite 0, Cartons = None, CenterOfGravity = zero_Point3D\<rparr>"

definition Pallet_fields :: "(string \<times> (json \<Rightarrow> Pallet \<Rightarrow> error + Pallet)) list" where
  "Pallet_fields =
     [(''pallet_id'', \<lambda>j v. stored (unmarshal_int j (PalletID v)) (\<lambda>x. v\<lparr>PalletID := x\<rparr>)),
      (''total_weight'', \<lambda>j v. stored (unmarshal_float64 j (TotalWeight v))
                                   (\<lambda>x. v\<lparr>TotalWeight := x\<rparr>)),
      (''total_height'', \<lambda>j v. stored (unmarshal_float64 j (TotalHeight v))
                                   (\<lambda>x. v\<lparr>TotalHeight := x\<rparr>)),
      (''utilization_percentage'', \<lambda>j v. stored (unmarshal_float64 j (UtilizationPercentage v))
                                             (\<lambda>x. v\<lparr>UtilizationPercentage := x\<rparr>)),
      (''cartons'', \<lambda>j v. stored (unmarshal_slice ''[]client.PlacedCarton'' unmarshal_PlacedCarton
                                       zero_PlacedCarton j (Pallet.Cartons v))
                              (\<lambda>x. v\<lparr>Pallet.Cartons := x\<rparr>)),
      (''center_of_gravity'', \<lambda>j v. stored (unmarshal_Point3D j (CenterOfGravity v))
                                        (\<lambda>x. v\<lparr>CenterOfGravity := x\<rparr>))]"

definition unmarshal_Pallet :: "json \<Rightarrow> Pallet \<Rightarrow> error + Pallet" where
  "unmarshal_Pallet = unmarshal_struct ''client.Pallet'' Pallet_fields"

definition zero_PackingSummary :: PackingSummary where
  "zero_PackingSummary =
     \<lparr>TotalPallets = 0, TotalCartonsPacked = 0, AverageUtilization = Finite 0,
      ComputationTimeMs = 0\<rparr>"

definition PackingSummary_fields ::
  "(string \<times> (json \<Rightarrow> PackingSummary \<Rightarrow> error + PackingSummary)) list" where
  "PackingSummary_fields =
     [(''total_pallets'', \<lambda>j v. stored (unmarshal_int j (TotalPallets v))
                                    (\<lambda>x. v\<lparr>TotalPallets := x\<rparr>)),
      (''total_cartons_packed'', \<lambda>j v. stored (unmarshal_int j (TotalCartonsPacked v))
                                           (\<lambda>x. v\<lparr>TotalCartonsPacked := x\<rparr>)),
      (''average_utilization'', \<lambda>j v. stored (unmarshal_float64 j (AverageUtilization v))
                                          (\<lambda>x. v\<lparr>AverageUtilization := x\<rparr>)),
      (''computation_time_ms'', \<lambda>j v. stored (unmarshal_int j (ComputationTimeMs v))
                                          (\<lambda>x. v\<lparr>ComputationTimeMs := x\<rparr>))]"

definition unmarshal_PackingSummary :: "json \<Rightarrow> PackingSummary \<Rightarrow> error + PackingSummary" where
  "unmarshal_PackingSummary = unmarshal_struct ''client.PackingSummary'' PackingSummary_fields"

text \<open>\<open>var response PackingResponse\<close>: the zero value, with a nil slice of pallets.\<close>

definition zero_PackingResponse :: PackingResponse where
  "zero_PackingResponse = \<lparr>Pallets = None, Summary = zero_PackingSummary, Error = []\<rparr>"

definition PackingResponse_fields ::
  "(string \<times> (json \<Rightarrow> PackingResponse \<Rightarrow> error + PackingResponse)) list" where
  "PackingResponse_fields =
     [(''pallets'', \<lambda>j v. stored (unmarshal_slice ''[]client.Pallet'' unmarshal_Pallet zero_Pallet
                                       j (Pallets v))
                              (\<lambda>x. v\<lparr>Pallets := x\<rparr>)),
      (''summary'', \<lambda>j v. stored (unmarshal_PackingSummary j (Summary v))
                              (\<lambda>x. v\<lparr>Summary := x\<rparr>)),
      (''error'', \<lambda>j v. stored (unmarshal_string j (Error v)) (\<lambda>x. v\<lparr>Error := x\<rparr>))]"

definition unmarshal_PackingResponse :: "json \<Rightarrow> PackingResponse \<Rightarrow> error + PackingResponse" where
  "unmarshal_PackingResponse = unmarshal_struct ''client.PackingResponse'' PackingResponse_fields"

text \<open>\<open>json.Unmarshal(body, &response)\<close>: the text is scanned, then stored.\<close>

definition json_Unmarshal :: "stdlib \<Rightarrow> string \<Rightarrow> PackingResponse \<Rightarrow> error + PackingResponse" where
  "json_Unmarshal std body v =
     (case json_scan std body of
        Inl e \<Rightarrow> Inl e
      | Inr j \<Rightarrow> unmarshal_PackingResponse j v)"

subsection \<open>\<open>Pack\<close>\<close>

text \<open>
  The first half of \<open>Pack\<close>, up to \<open>req.Header.Set\<close>: the request is marshalled and the
  HTTP request built around it. \<open>Inl\<close> is the error \<open>Pack\<close> returns (with a nil response)
  when one of the two steps fails.
\<close>

definition Pack_request ::
  "stdlib \<Rightarrow> Client \<Rightarrow> Context \<Rightarrow> PackingRequest option \<Rightarrow> error + Request" where
  "Pack_request std c ctx request =
     (case json_Marshal std request of
        Inl err \<Rightarrow> Inl (Errorf_w ''failed to marshal request: '' err)
      | Inr jsonData \<Rightarrow>
          (case http_NewRequestWithContext std ctx ''POST'' (baseURL c @ ''/api/v1/pack'') jsonData of
             Inl err \<Rightarrow> Inl (Errorf_w ''failed to create request: '' err)
           | Inr req \<Rightarrow>
               Inr (req\<lparr>Header := Header_Set (Header req) ''Content-Type'' ''application/json''\<rparr>)))"

text \<open>
  \<open>Pack\<close>: the request is sent, the body read and unmarshalled, and only then is the status
  code looked at. The result is Go's pair of a \<open>*PackingResponse\<close> and an \<open>error\<close>, \<open>None\<close>
  for nil.
\<close>

definition Pack ::
  "stdlib \<Rightarrow> Client \<Rightarrow> Context \<Rightarrow> PackingRequest option \<Rightarrow> PackingResponse option \<times> error option" where
  "Pack std c ctx request =
     (case Pack_request std c ctx request of
        Inl err \<Rightarrow> (None, Some err)
      | Inr req \<Rightarrow>
          (case httpClient c req of
             Inl err \<Rightarrow> (None, Some (Errorf_w ''failed to send request: '' err))
           | Inr resp \<Rightarrow>
               (case Response.Body resp of
                  Inl err \<Rightarrow> (None, Some (Errorf_w ''failed to read response: '' err))
                | Inr body \<Rightarrow>
                    (case json_Unmarshal std body zero_PackingResponse of
                       Inl err \<Rightarrow> (None, Some (Errorf_w ''failed to parse response: '' err))
                     | Inr response \<Rightarrow>
                         if StatusCode resp \<noteq> http_StatusOK then
                           if Error response \<noteq> [] then
                             (None, Some (ErrorString (''API error (status '' @
                                show_int (StatusCode resp) @ ''): '' @ Error response)))
                           else
                             (None, Some (ErrorString (''API returned status '' @
                                show_int (StatusCode resp) @ '': '' @ body)))
                         else (Some response, None)))))"

subsection \<open>Pallet presets and unit conversions\<close>

text \<open>\<open>StandardPallet\<close>: a 40x72x48 inch pallet (1500 lbs), written in the source as literals.\<close>

definition StandardPallet :: "(real \<Rightarrow> real) \<Rightarrow> PalletConstraints" where
  "StandardPallet rnd =
     \<lparr>MaxLength = Finite (rnd 1016.0), MaxWidth = Finite (rnd 1828.8),
      MaxHeight = Finite (rnd 1219.2), MaxWeight = Finite (rnd 680388.0)\<rparr>"

text \<open>\<open>StandardPallet4048\<close>: a 40x48x48 inch pallet (1500 lbs).\<close>

definition StandardPallet4048 :: "(real \<Rightarrow> real) \<Rightarrow> PalletConstraints" where
  "StandardPallet4048 rnd =
     \<lparr>MaxLength = Finite (rnd 1016.0), MaxWidth = Finite (rnd 1219.2),
      MaxHeight = Finite (rnd 1219.2), MaxWeight = Finite (rnd 680388.0)\<rparr>"

text \<open>
  The four conversions, on the finite values of \<open>float64\<close>, each as the real number it
  denotes.
\<close>

definition InchesToMM :: "(real \<Rightarrow> real) \<Rightarrow> real \<Rightarrow> real" where
  "InchesToMM rnd inches = rnd (inches * rnd 25.4)"

definition PoundsToGrams :: "(real \<Rightarrow> real) \<Rightarrow> real \<Rightarrow> real" where
  "PoundsToGrams rnd pounds = rnd (pounds * rnd 453.592)"

definition MMToInches :: "(real \<Rightarrow> real) \<Rightarrow> real \<Rightarrow> real" where
  "MMToInches rnd mm = rnd (mm / rnd 25.4)"

definition GramsToPounds :: "(real \<Rightarrow> real) \<Rightarrow> real \<Rightarrow> real" where
  "GramsToPounds rnd grams = rnd (grams / rnd 453.592)"

subsection \<open>Reading a JSON value\<close>

definition members :: "json \<Rightarrow> (string \<times> json) list" where
  "members j = (case j of JObject kvs \<Rightarrow> kvs | _ \<Rightarrow> [])"

definition member :: "string \<Rightarrow> json \<Rightarrow> json option" where
  "member k j = map_of (members j) k"

subsection \<open>Equal requests\<close>

text \<open>
  \<open>reflect.DeepEqual\<close> on two requests compares the fields one by one: strings, integers
  and booleans by value, a nil slice only with a nil slice, and the numbers by the relation
  \<open>feq\<close>, which is Go's \<open>==\<close> (\<open>float64_eq\<close>). \<open>float64_same\<close> is the finer relation that
  also tells the two zeros apart. (Two pointers to one and the same request are equal
  for \<open>reflect.DeepEqual\<close> whatever it holds; that is the request compared with itself.)
\<close>

definition float64_same :: "float64 \<Rightarrow> float64 \<Rightarrow> bool" where
  "float64_same a b = (float64_eq a b \<and> (a = NegZero) = (b = NegZero))"

definition equal_Carton :: "(float64 \<Rightarrow> float64 \<Rightarrow> bool) \<Rightarrow> Carton \<Rightarrow> Carton \<Rightarrow> bool" where
  "equal_Carton feq a b =
     (ID a = ID b \<and> feq (Carton.Length a) (Carton.Length b) \<and>
      feq (Carton.Width a) (Carton.Width b) \<and> feq (Carton.Height a) (Carton.Height b) \<and>
      feq (Carton.Weight a) (Carton.Weight b) \<and> Quantity a = Quantity b \<and>
      Fragile a = Fragile b \<and> AllowRotation a = AllowRotation b)"

definition equal_PalletConstraints ::
  "(float64 \<Rightarrow> float64 \<Rightarrow> bool) \<Rightarrow> PalletConstraints \<Rightarrow> PalletConstraints \<Rightarrow> bool" where
  "equal_PalletConstraints feq a b =
     (feq (MaxLength a) (MaxLength b) \<and> feq (MaxWidth a) (MaxWidth b) \<and>
      feq (MaxHeight a) (MaxHeight b) \<and> feq (MaxWeight a) (MaxWeight b))"

definition equal_PackingRequest ::
  "(float64 \<Rightarrow> float64 \<Rightarrow> bool) \<Rightarrow> PackingRequest \<Rightarrow> PackingRequest \<Rightarrow> bool" where
  "equal_PackingRequest feq a b =
     ((case (PackingRequest.Cartons a, PackingRequest.Cartons b) of
         (None, None) \<Rightarrow> True
       | (Some xs, Some ys) \<Rightarrow> list_all2 (equal_Carton feq) xs ys
       | _ \<Rightarrow> False) \<and>
      equal_PalletConstraints feq (PalletConstraints a) (PalletConstraints b) \<and>
      feq (SupportPercentage (PackingOptions a)) (SupportPercentage (PackingOptions b)))"

definition DeepEqual ::
  "(float64 \<Rightarrow> float64 \<Rightarrow> bool) \<Rightarrow> PackingRequest option \<Rightarrow> PackingRequest option \<Rightarrow> bool" where
  "DeepEqual feq p q =
     (case (p, q) of
        (None, None) \<Rightarrow> True
      | (Some a, Some b) \<Rightarrow> equal_PackingRequest feq a b
      | _ \<Rightarrow> False)"

subsection \<open>Requests that can be written\<close>

text \<open>
  \<open>json.Marshal\<close> refuses a request only for a number that is an infinity or NaN: the
  requests it accepts are those whose numbers are all finite.
\<close>

fun float64_finite :: "float64 \<Rightarrow> bool" where
  "float64_finite (Finite _) = True"
| "float64_finite NegZero = True"
| "float64_finite _ = False"

definition finite_Carton :: "Carton \<Rightarrow> bool" where
  "finite_Carton c =
     (float64_finite (Carton.Length c) \<and> float64_finite (Carton.Width c) \<and>
      float64_finite (Carton.Height c) \<and> float64_finite (Carton.Weight c))"

definition finite_PackingRequest :: "PackingRequest \<Rightarrow> bool" where
  "finite_PackingRequest r =
     ((case PackingRequest.Cartons r of None \<Rightarrow> True | Some cs \<Rightarrow> list_all finite_Carton cs) \<and>
      float64_finite (MaxLength (PalletConstraints r)) \<and>
      float64_finite (MaxWidth (PalletConstraints r)) \<and>
      float64_finite (MaxHeight (PalletConstraints r)) \<and>
      float64_finite (MaxWeight (PalletConstraints r)) \<and>
      float64_finite (SupportPercentage (PackingOptions r)))"

subsection \<open>Transports and contexts\<close>

text \<open>
  \<open>Pack\<close> hands the context to \<open>net/http\<close> and never looks at it again. A transport honours
  contexts when a request whose context is done is answered by an error that is the
  context's error, from \<open>Do\<close> or from the read of the body, as the transport of \<open>net/http\<close>
  does; a \<open>RoundTripper\<close> of the caller's own, given through \<open>NewWithHTTPClient\<close>, need not.
\<close>

definition honours_context :: "(Request \<Rightarrow> error + Response) \<Rightarrow> bool" where
  "honours_context do =
     (\<forall>req s. Ctx req = Done s \<longrightarrow>
        (case do req of
           Inl err \<Rightarrow> errors_Is err s
         | Inr resp \<Rightarrow> (case Response.Body resp of Inl err \<Rightarrow> errors_Is err s | Inr _ \<Rightarrow> False)))"

subsection \<open>The test doubles of \<open>client_test.go\<close>\<close>

text \<open>
  \<open>TestPack\<close> runs the client against an \<open>httptest\<close> server with a fixed answer. The
  request and the answer of that test, as values and as the texts Go writes for them
  (\<open>json.NewEncoder(w).Encode\<close> ends the text with a newline).
\<close>

definition test_request :: PackingRequest where
  "test_request =
     \<lparr>PackingRequest.Cartons = Some
        [\<lparr>ID = ''BOX001'', Carton.Length = Finite 609.6, Carton.Width = Finite 457.2,
          Carton.Height = Finite 406.4, Carton.Weight = Finite 18143.68,
          Quantity = 1, Fragile = False, AllowRotation = True\<rparr>],
      PalletConstraints = StandardPallet exact,
      PackingOptions = \<lparr>SupportPercentage = Finite 80.0\<rparr>\<rparr>"

definition test_request_text :: "string \<Rightarrow> string" where
  \<open>test_request_text support =
     ''{"cartons":[{"id":"BOX001","length":609.6,"width":457.2,"height":406.4,'' @
     ''"weight":18143.68,"quantity":1,"fragile":false,"allow_rotation":true}],'' @
     ''"pallet_constraints":{"max_length":1016,"max_width":1828.8,"max_height":1219.2,'' @
     ''"max_weight":680388},"packing_options":{"support_percentage":'' @
     support @ ''}}''\<close>

definition test_pallets_json :: json where
  "test_pallets_json = JArray
     [JObject
        [(''pallet_id'', JInt 1),
         (''total_weight'', JFloat (Finite 18143.68)),
         (''total_height'', JFloat (Finite 406.4)),
         (''utilization_percentage'', JInt 95),
         (''cartons'', JArray
            [JObject
               [(''carton_id'', JString ''BOX001_1''),
                (''position'', JObject [(''x'', JInt 0), (''y'', JInt 0), (''z'', JInt 0)]),
                (''dimensions'', JObject
                   [(''length'', JFloat (Finite 609.6)), (''width'', JFloat (Finite 457.2)),
                    (''height'', JFloat (Finite 406.4))]),
                (''orientation'', JString ''original''),
                (''weight'', JFloat (Finite 18143.68))]]),
         (''center_of_gravity'', JObject
            [(''x'', JFloat (Finite 304.8)), (''y'', JFloat (Finite 228.6)),
             (''z'', JFloat (Finite 203.2))])]]"

definition test_pallets_text :: string where
  \<open>test_pallets_text =
     ''[{"pallet_id":1,"total_weight":18143.68,"total_height":406.4,'' @
     ''"utilization_percentage":95,"cartons":[{"carton_id":"BOX001_1",'' @
     ''"position":{"x":0,"y":0,"z":0},"dimensions":{"length":609.6,"width":457.2,'' @
     ''"height":406.4},"orientation":"original","weight":18143.68}],'' @
     ''"center_of_gravity":{"x":304.8,"y":228.6,"z":203.2}}]''\<close>

definition test_summary_json :: json where
  "test_summary_json = JObject
     [(''total_pallets'', JInt 1), (''total_cartons_packed'', JInt 1),
      (''average_utilization'', JInt 95), (''computation_time_ms'', JInt 5)]"

definition test_summary_text :: string where
  \<open>test_summary_text =
     ''{"total_pallets":1,"total_cartons_packed":1,"average_utilization":95,'' @
     ''"computation_time_ms":5}''\<close>

definition test_response_json :: json where
  "test_response_json =
     JObject [(''pallets'', test_pallets_json), (''summary'', test_summary_json)]"

definition test_response_text :: string where
  \<open>test_response_text =
     ''{"pallets":'' @ test_pallets_text @ '',"summary":'' @ test_summary_text @ ''}'' @
     [CHR 0x0A]\<close>

definition test_pallet :: Pallet where
  "test_pallet =
     \<lparr>PalletID = 1, TotalWeight = Finite 18143.68, TotalHeight = Finite 406.4,
      UtilizationPercentage = Finite 95.0,
      Cartons = Some
        [\<lparr>CartonID = ''BOX001_1'', Position = \<lparr>X = Finite 0, Y = Finite 0, Z = Finite 0\<rparr>,
          Dimensions = \<lparr>Dimensions.Length = Finite 609.6, Width = Finite 457.2,
                        Height = Finite 406.4\<rparr>,
          Orientation = ''original'', Weight = Finite 18143.68\<rparr>],
      CenterOfGravity = \<lparr>X = Finite 304.8, Y = Finite 228.6, Z = Finite 203.2\<rparr>\<rparr>"

definition test_response :: PackingResponse where
  "test_response =
     \<lparr>Pallets = Some [test_pallet],
      Summary = \<lparr>TotalPallets = 1, TotalCartonsPacked = 1, AverageUtilization = Finite 95.0,
                 ComputationTimeMs = 5\<rparr>,
      Error = []\<rparr>"

text \<open>
  The same answer with an embedded error, as a server that packed part of the cartons
  writes it, and an error page that is not JSON.
\<close>

definition partial_response_json :: json where
  "partial_response_json =
     JObject [(''pallets'', test_pallets_json), (''summary'', test_summary_json),
              (''error'', JString ''carton BOX002 exceeds pallet dimensions'')]"

definition partial_response_text :: string where
  \<open>partial_response_text =
     ''{"pallets":'' @ test_pallets_text @ '',"summary":'' @ test_summary_text @
     '',"error":"carton BOX002 exceeds pallet dimensions"}'' @ [CHR 0x0A]\<close>

definition error_page_text :: string where
  \<open>error_page_text = ''<html><body>502 Bad Gateway</body></html>''\<close>

text \<open>
  The standard library on these texts: every URL parses, the numbers of the examples are
  written as Go writes them, a string without special characters is written between
  quotes, and the two answers are read back; any other text is refused as Go refuses the
  error page.
\<close>

definition test_std :: stdlib where
  \<open>test_std =
     \<lparr>url_Parse = (\<lambda>url. None),
      strconv_FormatFloat = (\<lambda>x.
        case map_of
          [(609.6, ''609.6''), (457.2, ''457.2''), (406.4, ''406.4''),
           (18143.68, ''18143.68''), (1016, ''1016''), (1828.8, ''1828.8''),
           (1219.2, ''1219.2''), (680388, ''680388''), (80, ''80''), (150, ''150''),
           (- 5, ''-5'')] x of
          Some t \<Rightarrow> t
        | None \<Rightarrow> ''?''),
      json_quote = (\<lambda>s. ''"'' @ s @ ''"''),
      json_scan = (\<lambda>text.
        if text = test_response_text then Inr test_response_json
        else if text = partial_response_text then Inr partial_response_json
        else Inl (ErrorString ''invalid character '<' looking for beginning of value''))\<rparr>\<close>

text \<open>
  \<open>url.Error\<close>, the error of \<open>http.Client.Do\<close>, and a server with a fixed answer behind an
  \<open>http.Client\<close>: a request whose context is done is not sent, \<open>Do\<close> returns the context's
  error wrapped in a \<open>url.Error\<close>.
\<close>

definition url_Error :: "string \<Rightarrow> string \<Rightarrow> error \<Rightarrow> error" where
  \<open>url_Error op url err = WrapError (op @ '' "'' @ url @ ''": '' @ error_text err) err\<close>

definition test_server :: "int \<Rightarrow> string \<Rightarrow> Request \<Rightarrow> error + Response" where
  "test_server status text req =
     (case Ctx req of
        Done s \<Rightarrow> Inl (url_Error ''Post'' (URL req) (Sentinel s))
      | _ \<Rightarrow> Inr \<lparr>StatusCode = status, Body = Inr text\<rparr>)"

definition test_client :: "int \<Rightarrow> string \<Rightarrow> Client" where
  "test_client status text = NewWithHTTPClient ''http://127.0.0.1:8080'' (test_server status text)"

text \<open>
  A client whose \<open>RoundTripper\<close> is a stub that answers every request with the fixed answer
  and does not look at the request's context.
\<close>

definition stub_client :: "int \<Rightarrow> string \<Rightarrow> Client" where
  "stub_client status text =
     NewWithHTTPClient ''http://127.0.0.1:8080''
       (\<lambda>req. Inr \<lparr>StatusCode = status, Body = Inr text\<rparr>)"

section \<open>Properties\<close>

subsection \<open>Rounding\<close>

text \<open>Rounding a number between \<open>2 ^ n\<close> and \<open>2 ^ (n + 1)\<close>, for \<open>n\<close> up to 52.\<close>

lemma floor_log2:
  assumes "2 ^ n \<le> x" and "x < 2 ^ Suc n"
  shows "\<lfloor>log 2 x\<rfloor> = int n"
proof -
  have "0 < x"
    using assms(1) by (smt (verit) zero_less_power)
  then show ?thesis
    using assms by (simp add: floor_log_eq_powr_iff powr_realpow powr_add)
qed

lemma binary64_normal:
  assumes "2 ^ n \<le> x" and "x < 2 ^ Suc n" and "n \<le> 52"
  shows "binary64 x = of_int (round_half_even (x * 2 ^ (52 - n))) / 2 ^ (52 - n)"
proof -
  have pos: "0 < x"
    using assms(1) by (smt (verit) zero_less_power)
  have "\<lfloor>log 2 x\<rfloor> = int n"
    using floor_log2 [OF assms(1,2)] .
  then have u: "ulp (max \<lfloor>log 2 x\<rfloor> (- 1022)) = 1 / 2 ^ (52 - n)"
    using assms(3) by (simp add: ulp_def nat_diff_distrib')
  show ?thesis
    using pos by (simp add: binary64_def u Let_def)
qed

lemma binary64_95: "binary64 95 = 95"
  using binary64_normal [of 6 95] by (simp add: round_half_even_def Let_def)

lemma binary64_0: "binary64 0 = 0"
  by (simp add: binary64_def)

subsection \<open>Evaluating the test doubles\<close>

lemmas unmarshal_defs =
  unmarshal_PackingResponse_def unmarshal_struct_def find_field_def PackingResponse_fields_def
  upper_def stored_def unmarshal_slice_def unmarshal_Pallet_def Pallet_fields_def
  unmarshal_PlacedCarton_def PlacedCarton_fields_def unmarshal_Point3D_def Point3D_fields_def
  unmarshal_Dimensions_def Dimensions_fields_def unmarshal_PackingSummary_def
  PackingSummary_fields_def zero_PackingResponse_def zero_Pallet_def zero_PlacedCarton_def
  zero_Point3D_def zero_Dimensions_def zero_PackingSummary_def float64_overflow_def
  binary64_95 binary64_0

lemma unmarshal_test_response:
  "unmarshal_PackingResponse test_response_json zero_PackingResponse = Inr test_response"
  by (simp add: unmarshal_defs test_response_json_def test_pallets_json_def
      test_summary_json_def test_response_def test_pallet_def)

lemma unmarshal_partial_response:
  "unmarshal_PackingResponse partial_response_json zero_PackingResponse =
     Inr (test_response\<lparr>Error := ''carton BOX002 exceeds pallet dimensions''\<rparr>)"
  by (simp add: unmarshal_defs partial_response_json_def test_pallets_json_def
      test_summary_json_def test_response_def test_pallet_def)

lemma show_int_1: "show_int 1 = ''1''"
  by (simp add: show_int_def show_nat.simps)

lemma Marshal_test_request:
  "json_Marshal test_std (Some test_request) = Inr (test_request_text ''80'')"
  by (simp add: json_Marshal_def marshal_PackingRequest_def marshal_Carton_def
      marshal_PalletConstraints_def marshal_PackingOptions_def test_request_def
      StandardPallet_def exact_def test_std_def test_request_text_def show_int_1)

lemma Marshal_test_request_support:
  "x \<in> {150, - 5} \<Longrightarrow>
   json_Marshal test_std
       (Some (test_request\<lparr>PackingOptions := \<lparr>SupportPercentage = Finite x\<rparr>\<rparr>)) =
     Inr (test_request_text (if x = 150 then ''150'' else ''-5''))"
  by (auto simp add: json_Marshal_def marshal_PackingRequest_def marshal_Carton_def
      marshal_PalletConstraints_def marshal_PackingOptions_def test_request_def
      StandardPallet_def exact_def test_std_def test_request_text_def show_int_1)

lemma scan_test_response: "json_scan test_std test_response_text = Inr test_response_json"
  by (simp add: test_std_def)

lemma scan_partial_response:
  "json_scan test_std partial_response_text = Inr partial_response_json"
  by (simp add: test_std_def test_response_text_def partial_response_text_def)

lemma scan_error_page:
  \<open>json_scan test_std error_page_text =
     Inl (ErrorString ''invalid character '<' looking for beginning of value'')\<close>
  by (simp add: test_std_def test_response_text_def partial_response_text_def
      error_page_text_def)

lemma Unmarshal_test_response:
  "json_Unmarshal test_std test_response_text zero_PackingResponse = Inr test_response"
  by (simp add: json_Unmarshal_def scan_test_response unmarshal_test_response)

lemma Unmarshal_partial_response:
  "json_Unmarshal test_std partial_response_text zero_PackingResponse =
     Inr (test_response\<lparr>Error := ''carton BOX002 exceeds pallet dimensions''\<rparr>)"
  by (simp add: json_Unmarshal_def scan_partial_response unmarshal_partial_response)

lemma Unmarshal_error_page:
  \<open>json_Unmarshal test_std error_page_text zero_PackingResponse =
     Inl (ErrorString ''invalid character '<' looking for beginning of value'')\<close>
  by (simp add: json_Unmarshal_def scan_error_page)

lemma url_Parse_test_std: "url_Parse test_std url = None"
  by (simp add: test_std_def)

lemma Pack_request_built:
  assumes "json_Marshal std request = Inr text"
    and "ctx \<noteq> NoContext"
    and "url_Parse std (baseURL c @ ''/api/v1/pack'') = None"
  shows "Pack_request std c ctx request =
     Inr \<lparr>Method = ''POST'', URL = baseURL c @ ''/api/v1/pack'',
          Header = [(''Content-Type'', ''application/json'')], Body = text, Ctx = ctx\<rparr>"
  using assms
  by (simp add: Pack_request_def http_NewRequestWithContext_def Header_Set_def)

lemma Pack_request_test:
  "ctx \<noteq> NoContext \<Longrightarrow>
   Pack_request test_std (test_client status text) ctx (Some test_request) =
     Inr \<lparr>Method = ''POST'', URL = ''http://127.0.0.1:8080/api/v1/pack'',
          Header = [(''Content-Type'', ''application/json'')],
          Body = test_request_text ''80'', Ctx = ctx\<rparr>"
  using Pack_request_built [OF Marshal_test_request _ url_Parse_test_std,
      of ctx "test_client status text"]
  by (simp add: test_client_def NewWithHTTPClient_def)

lemma Pack_request_stub:
  "ctx \<noteq> NoContext \<Longrightarrow>
   Pack_request test_std (stub_client status text) ctx (Some test_request) =
     Inr \<lparr>Method = ''POST'', URL = ''http://127.0.0.1:8080/api/v1/pack'',
          Header = [(''Content-Type'', ''application/json'')],
          Body = test_request_text ''80'', Ctx = ctx\<rparr>"
  using Pack_request_built [OF Marshal_test_request _ url_Parse_test_std,
      of ctx "stub_client status text"]
  by (simp add: stub_client_def NewWithHTTPClient_def)

lemma test_client_answers:
  "Ctx req = Background \<Longrightarrow>
   httpClient (test_client status text) req = Inr \<lparr>StatusCode = status, Body = Inr text\<rparr>"
  by (simp add: test_client_def NewWithHTTPClient_def test_server_def)

lemma test_client_done:
  "Ctx req = Done s \<Longrightarrow>
   httpClient (test_client status text) req = Inl (url_Error ''Post'' (URL req) (Sentinel s))"
  by (simp add: test_client_def NewWithHTTPClient_def test_server_def)

lemma stub_client_answers:
  "httpClient (stub_client status text) req = Inr \<lparr>StatusCode = status, Body = Inr text\<rparr>"
  by (simp add: stub_client_def NewWithHTTPClient_def)

lemma show_int_422: "show_int 422 = ''422''"
  by (simp add: show_int_def show_nat.simps)

lemma Pack_test:
  "Pack test_std (test_client 200 test_response_text) Background (Some test_request) =
     (Some test_response, None)"
  by (simp add: Pack_def Pack_request_test test_client_answers Unmarshal_test_response
      http_StatusOK_def)

subsection \<open>Wrapped errors\<close>

lemma errors_Is_Errorf_w:
  "errors_Is (Errorf_w prefix err) target = errors_Is err target"
  by (simp add: Errorf_w_def)

lemma errors_Is_url_Error:
  "errors_Is (url_Error op url err) target = errors_Is err target"
  by (simp add: url_Error_def)

lemma honours_context_test_client: "honours_context (httpClient (test_client status text))"
  by (simp add: honours_context_def test_client_done errors_Is_url_Error)

lemma Pack_request_Ctx:
  "Pack_request std c ctx request = Inr req \<Longrightarrow> Ctx req = ctx"
  by (auto simp add: Pack_request_def http_NewRequestWithContext_def
      split: sum.splits if_splits option.splits)

subsection \<open>Members and fields\<close>




lemma float64_same_eq: "float64_same a b \<Longrightarrow> a = b"
  by (cases a; cases b) (auto simp add: float64_same_def)

lemma equal_Carton_same: "equal_Carton float64_same a b \<Longrightarrow> a = b"
  by (cases a; cases b) (auto simp add: equal_Carton_def dest: float64_same_eq)

lemma equal_Cartons_same: "list_all2 (equal_Carton float64_same) xs ys \<Longrightarrow> xs = ys"
proof -
  assume "list_all2 (equal_Carton float64_same) xs ys"
  then have "list_all2 (=) xs ys"
    by (rule list_all2_mono) (rule equal_Carton_same)
  then show ?thesis
    by (simp add: list_all2_eq)
qed

lemma equal_PalletConstraints_same: "equal_PalletConstraints float64_same a b \<Longrightarrow> a = b"
  by (cases a; cases b) (auto simp add: equal_PalletConstraints_def dest: float64_same_eq)

lemma equal_PackingRequest_same: "equal_PackingRequest float64_same a b \<Longrightarrow> a = b"
proof -
  assume eq: "equal_PackingRequest float64_same a b"
  then have "PackingRequest.Cartons a = PackingRequest.Cartons b"
    by (auto simp add: equal_PackingRequest_def dest: equal_Cartons_same
        split: option.splits)
  moreover from eq have "PalletConstraints a = PalletConstraints b"
    by (auto simp add: equal_PackingRequest_def dest: equal_PalletConstraints_same)
  moreover from eq have "PackingOptions a = PackingOptions b"
    by (cases "PackingOptions a"; cases "PackingOptions b")
       (auto simp add: equal_PackingRequest_def dest: float64_same_eq)
  ultimately show ?thesis
    by (cases a; cases b) simp
qed

lemma DeepEqual_same: "DeepEqual float64_same p q \<Longrightarrow> p = q"
  by (auto simp add: DeepEqual_def dest: equal_PackingRequest_same split: option.splits)

lemma json_Marshal_layout:
  assumes "json_Marshal std (Some r) = Inr text"
  shows "\<exists>cartons constraints options.
     json_write std (case PackingRequest.Cartons r of
                       None \<Rightarrow> JNull
                     | Some cs \<Rightarrow> JArray (map marshal_Carton cs)) = Inr cartons \<and>
     json_write std (marshal_PalletConstraints (PalletConstraints r)) = Inr constraints \<and>
     json_write std (marshal_PackingOptions (PackingOptions r)) = Inr options \<and>
     text = ''{'' @ json_quote std ''cartons'' @ '':'' @ cartons @ '','' @
              json_quote std ''pallet_constraints'' @ '':'' @ constraints @ '','' @
              json_quote std ''packing_options'' @ '':'' @ options @ ''}''"
  using assms
  by (auto simp add: json_Marshal_def marshal_PackingRequest_def split: sum.splits)

subsection \<open>Writing a request\<close>

lemma floatEncoder_finite: "float64_finite f \<Longrightarrow> \<exists>t. floatEncoder std f = Inr t"
  by (cases f) simp_all

lemma floatEncoder_refuses: "\<not> float64_finite f \<Longrightarrow> \<exists>e. floatEncoder std f = Inl e"
  by (cases f) simp_all

lemma write_Carton_finite:
  assumes "finite_Carton c"
  shows "\<exists>t. json_write std (marshal_Carton c) = Inr t"
proof -
  from assms obtain l w h g where
    "floatEncoder std (Carton.Length c) = Inr l" "floatEncoder std (Carton.Width c) = Inr w"
    "floatEncoder std (Carton.Height c) = Inr h" "floatEncoder std (Carton.Weight c) = Inr g"
    unfolding finite_Carton_def using floatEncoder_finite by metis
  then show ?thesis
    by (simp add: marshal_Carton_def)
qed

lemma write_Cartons_finite:
  "list_all finite_Carton cs \<Longrightarrow> \<exists>ts. json_write_elems std (map marshal_Carton cs) = Inr ts"
proof (induction cs)
  case Nil
  then show ?case by simp
next
  case (Cons c cs)
  then obtain t ts where "json_write std (marshal_Carton c) = Inr t"
    and "json_write_elems std (map marshal_Carton cs) = Inr ts"
    using write_Carton_finite by force
  then show ?case by simp
qed

lemma write_PalletConstraints_finite:
  assumes "float64_finite (MaxLength p)" and "float64_finite (MaxWidth p)"
    and "float64_finite (MaxHeight p)" and "float64_finite (MaxWeight p)"
  shows "\<exists>t. json_write std (marshal_PalletConstraints p) = Inr t"
proof -
  from assms obtain l w h g where
    "floatEncoder std (MaxLength p) = Inr l" "floatEncoder std (MaxWidth p) = Inr w"
    "floatEncoder std (MaxHeight p) = Inr h" "floatEncoder std (MaxWeight p) = Inr g"
    using floatEncoder_finite by metis
  then show ?thesis
    by (simp add: marshal_PalletConstraints_def)
qed

lemma write_PackingOptions:
  "json_write std (marshal_PackingOptions opts) =
     (case floatEncoder std (SupportPercentage opts) of
        Inl e \<Rightarrow> Inl e
      | Inr t \<Rightarrow> Inr (''{'' @ json_quote std ''support_percentage'' @ '':'' @ t @ ''}''))"
  by (simp add: marshal_PackingOptions_def split: sum.splits)

lemma Marshal_finite:
  assumes "finite_PackingRequest r"
  shows "\<exists>text. json_Marshal std (Some r) = Inr text"
proof -
  have "\<exists>t. json_write std (case PackingRequest.Cartons r of
                       None \<Rightarrow> JNull
                     | Some cs \<Rightarrow> JArray (map marshal_Carton cs)) = Inr t"
  proof (cases "PackingRequest.Cartons r")
    case None
    then show ?thesis by simp
  next
    case (Some cs)
    with assms have "list_all finite_Carton cs"
      by (simp add: finite_PackingRequest_def)
    then obtain ts where "json_write_elems std (map marshal_Carton cs) = Inr ts"
      using write_Cartons_finite by blast
    with Some show ?thesis by simp
  qed
  moreover have "\<exists>t. json_write std (marshal_PalletConstraints (PalletConstraints r)) = Inr t"
    using assms by (intro write_PalletConstraints_finite) (simp_all add: finite_PackingRequest_def)
  moreover have "\<exists>t. json_write std (marshal_PackingOptions (PackingOptions r)) = Inr t"
    using assms floatEncoder_finite [of "SupportPercentage (PackingOptions r)" std]
    by (auto simp add: write_PackingOptions finite_PackingRequest_def)
  ultimately show ?thesis
    by (auto simp add: json_Marshal_def marshal_PackingRequest_def)
qed

lemma Marshal_refuses:
  assumes "\<not> float64_finite (SupportPercentage (PackingOptions r))"
  shows "\<exists>e. json_Marshal std (Some r) = Inl e"
proof -
  from assms obtain e where "floatEncoder std (SupportPercentage (PackingOptions r)) = Inl e"
    using floatEncoder_refuses by blast
  then have "json_write std (marshal_PackingOptions (PackingOptions r)) = Inl e"
    by (simp add: write_PackingOptions)
  then show ?thesis
    by (auto simp add: json_Marshal_def marshal_PackingRequest_def split: sum.splits)
qed

lemma Pack_exchange:
  assumes "Pack_request std c ctx request = Inr req"
  shows "Pack std c ctx request =
     (case httpClient c req of
        Inl err \<Rightarrow> (None, Some (Errorf_w ''failed to send request: '' err))
      | Inr resp \<Rightarrow>
          (case Response.Body resp of
             Inl err \<Rightarrow> (None, Some (Errorf_w ''failed to read response: '' err))
           | Inr body \<Rightarrow>
               (case json_Unmarshal std body zero_PackingResponse of
                  Inl err \<Rightarrow> (None, Some (Errorf_w ''failed to parse response: '' err))
                | Inr response \<Rightarrow>
                    if StatusCode resp \<noteq> 200 then
                      if Error response \<noteq> [] then
                        (None, Some (ErrorString (''API error (status '' @
                           show_int (StatusCode resp) @ ''): '' @ Error response)))
                      else
                        (None, Some (ErrorString (''API returned status '' @
                           show_int (StatusCode resp) @ '': '' @ body)))
                    else (Some response, None))))"
  unfolding Pack_def http_StatusOK_def assms by simp

lemma finite_test_request: "float64_finite f \<Longrightarrow>
   finite_PackingRequest (test_request\<lparr>PackingOptions := \<lparr>SupportPercentage = f\<rparr>\<rparr>)"
  by (simp add: finite_PackingRequest_def finite_Carton_def test_request_def StandardPallet_def)

lemma DeepEqual_same_test: "DeepEqual float64_same (Some test_request) (Some test_request)"
  by (simp add: DeepEqual_def equal_PackingRequest_def equal_Carton_def
      equal_PalletConstraints_def float64_same_def test_request_def StandardPallet_def)

lemma Marshal_test_request_zero:
  "json_Marshal test_std
       (Some (test_request\<lparr>PackingOptions := \<lparr>SupportPercentage = Finite 0\<rparr>\<rparr>)) =
     Inr (test_request_text ''0'')"
  by (simp add: json_Marshal_def marshal_PackingRequest_def marshal_Carton_def
      marshal_PalletConstraints_def marshal_PackingOptions_def test_request_def
      StandardPallet_def exact_def test_std_def test_request_text_def show_int_1)

lemma Marshal_test_request_negzero:
  "json_Marshal test_std
       (Some (test_request\<lparr>PackingOptions := \<lparr>SupportPercentage = NegZero\<rparr>\<rparr>)) =
     Inr (test_request_text ''-0'')"
  by (simp add: json_Marshal_def marshal_PackingRequest_def marshal_Carton_def
      marshal_PalletConstraints_def marshal_PackingOptions_def test_request_def
      StandardPallet_def exact_def test_std_def test_request_text_def show_int_1)

text \<open>\<open>Pack\<close> and the context; the pallets of a response.\<close>

lemma Pack_request_other_context:
  assumes "Pack_request std c ctx1 request = Inr req" and "ctx2 \<noteq> NoContext"
  shows "Pack_request std c ctx2 request = Inr (req\<lparr>Ctx := ctx2\<rparr>)"
  using assms
  by (auto simp add: Pack_request_def http_NewRequestWithContext_def
      split: sum.splits if_splits option.splits)

lemma Pack_request_refused_any_context:
  assumes "Pack_request std c ctx1 request = Inl e" and "ctx1 \<noteq> NoContext" and "ctx2 \<noteq> NoContext"
  shows "Pack_request std c ctx2 request = Inl e"
  using assms
  by (auto simp add: Pack_request_def http_NewRequestWithContext_def
      split: sum.splits if_splits option.splits)

lemma Pack_ignores_context:
  assumes deaf: "\<forall>req ctx. httpClient c (req\<lparr>Ctx := ctx\<rparr>) = httpClient c req"
    and "ctx1 \<noteq> NoContext" and "ctx2 \<noteq> NoContext"
  shows "Pack std c ctx1 request = Pack std c ctx2 request"
proof (cases "Pack_request std c ctx1 request")
  case (Inl e)
  from Inl assms(2,3) have "Pack_request std c ctx2 request = Inl e"
    by (rule Pack_request_refused_any_context)
  with Inl show ?thesis by (simp add: Pack_def)
next
  case (Inr req)
  from Inr assms(3) have "Pack_request std c ctx2 request = Inr (req\<lparr>Ctx := ctx2\<rparr>)"
    by (rule Pack_request_other_context)
  with Inr deaf show ?thesis by (simp add: Pack_def)
qed


text \<open>The bytes of a request, piece by piece.\<close>

lemma write_Carton_text:
  assumes "json_write std (marshal_Carton c) = Inr t"
  shows "\<exists>l w h g.
     floatEncoder std (Carton.Length c) = Inr l \<and> floatEncoder std (Carton.Width c) = Inr w \<and>
     floatEncoder std (Carton.Height c) = Inr h \<and> floatEncoder std (Carton.Weight c) = Inr g \<and>
     t = ''{'' @ json_quote std ''id'' @ '':'' @ json_quote std (ID c) @ '','' @
         json_quote std ''length'' @ '':'' @ l @ '','' @
         json_quote std ''width'' @ '':'' @ w @ '','' @
         json_quote std ''height'' @ '':'' @ h @ '','' @
         json_quote std ''weight'' @ '':'' @ g @ '','' @
         json_quote std ''quantity'' @ '':'' @ show_int (Quantity c) @ '','' @
         json_quote std ''fragile'' @ '':'' @ (if Fragile c then ''true'' else ''false'') @ '','' @
         json_quote std ''allow_rotation'' @ '':'' @
           (if AllowRotation c then ''true'' else ''false'') @ ''}''"
  using assms by (auto simp add: marshal_Carton_def split: sum.splits)

lemma write_Cartons_text:
  "json_write_elems std (map marshal_Carton cs) = Inr ts \<Longrightarrow>
   list_all2 (\<lambda>c t. json_write std (marshal_Carton c) = Inr t) cs ts"
  by (induction cs arbitrary: ts) (auto split: sum.splits)

lemma write_PalletConstraints_text:
  assumes "json_write std (marshal_PalletConstraints p) = Inr t"
  shows "\<exists>l w h g.
     floatEncoder std (MaxLength p) = Inr l \<and> floatEncoder std (MaxWidth p) = Inr w \<and>
     floatEncoder std (MaxHeight p) = Inr h \<and> floatEncoder std (MaxWeight p) = Inr g \<and>
     t = ''{'' @ json_quote std ''max_length'' @ '':'' @ l @ '','' @
         json_quote std ''max_width'' @ '':'' @ w @ '','' @
         json_quote std ''max_height'' @ '':'' @ h @ '','' @
         json_quote std ''max_weight'' @ '':'' @ g @ ''}''"
  using assms by (auto simp add: marshal_PalletConstraints_def split: sum.splits)

lemma write_PackingOptions_text:
  assumes "json_write std (marshal_PackingOptions opts) = Inr t"
  shows "\<exists>s. floatEncoder std (SupportPercentage opts) = Inr s \<and>
     t = ''{'' @ json_quote std ''support_percentage'' @ '':'' @ s @ ''}''"
  using assms by (auto simp add: marshal_PackingOptions_def split: sum.splits)

lemma write_cartons_member_text:
  assumes "json_write std (case cartons of None \<Rightarrow> JNull | Some cs \<Rightarrow> JArray (map marshal_Carton cs)) = Inr t"
  shows "case cartons of
       None \<Rightarrow> t = ''null''
     | Some cs \<Rightarrow>
         (\<exists>ts. list_all2 (\<lambda>c t. json_write std (marshal_Carton c) = Inr t) cs ts \<and>
            t = ''['' @ commas ts @ '']'')"
  using assms by (auto split: option.splits sum.splits dest: write_Cartons_text)

subsection \<open>What \<open>Pack\<close> returns\<close>

text \<open>
  Claim C10. Every call to \<open>Pack\<close> returns exactly one non-nil result: the response is
  non-nil if and only if the error is nil. Moreover, once the exchange has delivered a body,
  a body that does not unmarshal into a \<open>PackingResponse\<close> makes \<open>Pack\<close> return the error
  \<open>failed to parse response\<close> wrapping the decoder's error, whatever the status code: the
  body is parsed before the status is looked at, so an error page that is not JSON yields a
  parse error, not a status error.
\<close>

theorem Pack_one_result_and_parse_first:
  "(fst (Pack std c ctx request) \<noteq> None) = (snd (Pack std c ctx request) = None) \<and>
   (Pack_request std c ctx request = Inr req \<and> httpClient c req = Inr resp \<and>
    Response.Body resp = Inr body \<and>
    json_Unmarshal std body zero_PackingResponse = Inl err \<longrightarrow>
      Pack std c ctx request = (None, Some (Errorf_w ''failed to parse response: '' err)))"
  by (simp add: Pack_def split: sum.splits)

text \<open>At a 502 answer whose body is an HTML page, the error is the parse error.\<close>

theorem Pack_one_result_and_parse_first_witness:
  \<open>Pack test_std (test_client 502 error_page_text) Background (Some test_request) =
     (None, Some (Errorf_w ''failed to parse response: ''
        (ErrorString ''invalid character '<' looking for beginning of value'')))\<close>
proof -
  let ?c = "test_client 502 error_page_text"
  let ?req = "\<lparr>Method = ''POST'', URL = ''http://127.0.0.1:8080/api/v1/pack'',
      Header = [(''Content-Type'', ''application/json'')],
      Body = test_request_text ''80'', Ctx = Background\<rparr>"
  have sent: "Pack_request test_std ?c Background (Some test_request) = Inr ?req"
    by (simp add: Pack_request_test)
  have answered: "httpClient ?c ?req = Inr \<lparr>StatusCode = 502, Body = Inr error_page_text\<rparr>"
    by (simp add: test_client_answers)
  from Pack_one_result_and_parse_first
    [of test_std ?c Background "Some test_request" ?req
      "\<lparr>StatusCode = 502, Body = Inr error_page_text\<rparr>" error_page_text
      "ErrorString ''invalid character '<' looking for beginning of value''"]
    sent answered Unmarshal_error_page
  show ?thesis by simp
qed

text \<open>
  Claim C3. Whenever \<open>Pack\<close> returns a non-nil \<open>PackingResponse\<close>, the error is nil and the
  response is exactly what \<open>json.Unmarshal\<close> stored, from the body the server sent with status
  200, into a zero \<open>PackingResponse\<close>: pallets, placements, summary and error string are the
  decoded content of the body, which the client neither computes nor alters, filters or
  reorders.
\<close>

theorem Pack_returns_decoded_body:
  assumes "Pack std c ctx request = (Some response, err)"
  shows "err = None \<and>
     (\<exists>req resp body.
        Pack_request std c ctx request = Inr req \<and>
        httpClient c req = Inr resp \<and>
        Response.Body resp = Inr body \<and>
        StatusCode resp = 200 \<and>
        json_Unmarshal std body zero_PackingResponse = Inr response)"
  using assms
  by (auto simp add: Pack_def http_StatusOK_def split: sum.splits if_splits)

text \<open>The call of \<open>TestPack\<close>: the pallet, the placement and the summary of the body.\<close>

theorem Pack_returns_decoded_body_witness:
  "Pack test_std (test_client 200 test_response_text) Background (Some test_request) =
     (Some test_response, None) \<and>
   json_Unmarshal test_std test_response_text zero_PackingResponse = Inr test_response"
  using Pack_returns_decoded_body [OF Pack_test] Pack_test Unmarshal_test_response
  by simp

text \<open>
  Claim C1. When the exchange completes and the body unmarshals into a \<open>PackingResponse\<close>
  with a non-empty error string, together with any pallets, the outcome depends on the
  status code. With status 200 the caller receives that \<open>PackingResponse\<close>, error string and
  pallets as decoded, and a nil error. With any other status \<open>Pack\<close> returns a nil response
  and the error \<open>API error (status N): \<close> followed by the error string: the pallets of the
  body are not returned.
\<close>

theorem Pack_embedded_error:
  assumes "Pack_request std c ctx request = Inr req"
    and "httpClient c req = Inr resp"
    and "Response.Body resp = Inr body"
    and "json_Unmarshal std body zero_PackingResponse = Inr response"
    and "Error response \<noteq> []"
  shows "Pack std c ctx request =
     (if StatusCode resp = 200 then (Some response, None)
      else (None, Some (ErrorString
        (''API error (status '' @ show_int (StatusCode resp) @ ''): '' @ Error response))))"
  using assms by (simp add: Pack_def http_StatusOK_def)

text \<open>With status 200 the partial answer comes back whole, pallet and error string.\<close>

theorem Pack_embedded_error_witness:
  "Pack test_std (test_client 200 partial_response_text) Background (Some test_request) =
     (Some \<lparr>Pallets = Some [test_pallet],
            Summary = \<lparr>TotalPallets = 1, TotalCartonsPacked = 1, AverageUtilization = Finite 95.0,
                       ComputationTimeMs = 5\<rparr>,
            Error = ''carton BOX002 exceeds pallet dimensions''\<rparr>, None)"
proof -
  let ?c = "test_client 200 partial_response_text"
  let ?req = "\<lparr>Method = ''POST'', URL = ''http://127.0.0.1:8080/api/v1/pack'',
      Header = [(''Content-Type'', ''application/json'')],
      Body = test_request_text ''80'', Ctx = Background\<rparr>"
  have sent: "Pack_request test_std ?c Background (Some test_request) = Inr ?req"
    by (simp add: Pack_request_test)
  have answered: "httpClient ?c ?req =
      Inr \<lparr>StatusCode = 200, Body = Inr partial_response_text\<rparr>"
    by (simp add: test_client_answers)
  show ?thesis
    using Pack_embedded_error [OF sent answered _ Unmarshal_partial_response]
    by (simp add: test_response_def)
qed

text \<open>
  The same body under status 422: it unmarshals into a response with one pallet and a
  non-empty error string, and \<open>Pack\<close> returns no response at all.
\<close>

theorem Pack_error_status_counterexample:
  "json_Unmarshal test_std partial_response_text zero_PackingResponse =
     Inr \<lparr>Pallets = Some [test_pallet],
          Summary = \<lparr>TotalPallets = 1, TotalCartonsPacked = 1, AverageUtilization = Finite 95.0,
                     ComputationTimeMs = 5\<rparr>,
          Error = ''carton BOX002 exceeds pallet dimensions''\<rparr> \<and>
   Pack test_std (test_client 422 partial_response_text) Background (Some test_request) =
     (None, Some (ErrorString
        ''API error (status 422): carton BOX002 exceeds pallet dimensions''))"
  by (simp add: Unmarshal_partial_response Pack_def Pack_request_test test_client_answers
      http_StatusOK_def show_int_422 test_response_def)

text \<open>
  Claim C4. \<open>Pack\<close> does not look at the context itself; it relies on the HTTP client.
  Whenever the client reports the cancellation, \<open>Do\<close> or the read of the body failing with
  an error that is \<open>context.Canceled\<close>, \<open>Pack\<close> returns a nil \<open>PackingResponse\<close> and an error
  that wraps that error. With a client that honours contexts, as the transport of
  \<open>net/http\<close> does, a call whose context is cancelled therefore never returns a response,
  and once the request is built its error is \<open>context.Canceled\<close>. With a client that does
  not look at the context of a request, a call under a cancelled context returns what the
  same call returns under any other context.
\<close>

theorem Pack_cancelled:
  "(Pack_request std c ctx request = Inr req \<and> errors_Is cause context_Canceled \<and>
    (httpClient c req = Inl cause \<or>
     (\<exists>resp. httpClient c req = Inr resp \<and> Response.Body resp = Inl cause)) \<longrightarrow>
      (\<exists>prefix. Pack std c ctx request = (None, Some (Errorf_w prefix cause)) \<and>
         Unwrap (Errorf_w prefix cause) = Some cause \<and>
         errors_Is (Errorf_w prefix cause) context_Canceled)) \<and>
   (honours_context (httpClient c) \<longrightarrow>
      fst (Pack std c (Done context_Canceled) request) = None \<and>
      (Pack_request std c (Done context_Canceled) request = Inr req \<longrightarrow>
         (\<exists>err. snd (Pack std c (Done context_Canceled) request) = Some err \<and>
            errors_Is err context_Canceled))) \<and>
   ((\<forall>req ctx'. httpClient c (req\<lparr>Ctx := ctx'\<rparr>) = httpClient c req) \<and> ctx \<noteq> NoContext \<longrightarrow>
      Pack std c (Done context_Canceled) request = Pack std c ctx request)"
proof (intro conjI impI)
  assume "(\<forall>req ctx'. httpClient c (req\<lparr>Ctx := ctx'\<rparr>) = httpClient c req) \<and> ctx \<noteq> NoContext"
  then show "Pack std c (Done context_Canceled) request = Pack std c ctx request"
    by (intro Pack_ignores_context) simp_all
next
  assume "Pack_request std c ctx request = Inr req \<and> errors_Is cause context_Canceled \<and>
    (httpClient c req = Inl cause \<or>
     (\<exists>resp. httpClient c req = Inr resp \<and> Response.Body resp = Inl cause))"
  then show "\<exists>prefix. Pack std c ctx request = (None, Some (Errorf_w prefix cause)) \<and>
         Unwrap (Errorf_w prefix cause) = Some cause \<and>
         errors_Is (Errorf_w prefix cause) context_Canceled"
    by (auto simp add: Pack_def errors_Is_Errorf_w) (auto simp add: Errorf_w_def)
next
  assume h: "honours_context (httpClient c)"
  show "fst (Pack std c (Done context_Canceled) request) = None"
  proof (cases "Pack_request std c (Done context_Canceled) request")
    case (Inl e)
    then show ?thesis by (simp add: Pack_def)
  next
    case (Inr r)
    then have "Ctx r = Done context_Canceled"
      by (rule Pack_request_Ctx)
    with h Inr show ?thesis
      by (auto simp add: honours_context_def Pack_def split: sum.splits)
  qed
next
  assume h: "honours_context (httpClient c)"
    and built: "Pack_request std c (Done context_Canceled) request = Inr req"
  from built have "Ctx req = Done context_Canceled"
    by (rule Pack_request_Ctx)
  with h built
  show "\<exists>err. snd (Pack std c (Done context_Canceled) request) = Some err \<and>
      errors_Is err context_Canceled"
    by (auto simp add: honours_context_def Pack_def errors_Is_Errorf_w split: sum.splits)
qed

text \<open>The test client honours contexts; under a cancelled one its \<open>Do\<close> is refused.\<close>

theorem Pack_cancelled_witness:
  \<open>Pack test_std (test_client 200 test_response_text) (Done context_Canceled)
       (Some test_request) =
     (None, Some (Errorf_w ''failed to send request: ''
        (url_Error ''Post'' ''http://127.0.0.1:8080/api/v1/pack'' (Sentinel context_Canceled)))) \<and>
   errors_Is (Errorf_w ''failed to send request: ''
        (url_Error ''Post'' ''http://127.0.0.1:8080/api/v1/pack'' (Sentinel context_Canceled)))
     context_Canceled \<and>
   honours_context (httpClient (test_client 200 test_response_text))\<close>
proof -
  let ?ctx = "Done context_Canceled"
  let ?c = "test_client 200 test_response_text"
  let ?req = "\<lparr>Method = ''POST'', URL = ''http://127.0.0.1:8080/api/v1/pack'',
      Header = [(''Content-Type'', ''application/json'')],
      Body = test_request_text ''80'', Ctx = ?ctx\<rparr>"
  let ?cause = "url_Error ''Post'' ''http://127.0.0.1:8080/api/v1/pack'' (Sentinel context_Canceled)"
  have sent: "Pack_request test_std ?c ?ctx (Some test_request) = Inr ?req"
    by (simp add: Pack_request_test)
  have refused: "httpClient ?c ?req = Inl ?cause"
    by (simp add: test_client_done)
  have result: "Pack test_std ?c ?ctx (Some test_request) =
      (None, Some (Errorf_w ''failed to send request: '' ?cause))"
    by (simp add: Pack_def sent refused)
  from Pack_cancelled [of test_std ?c ?ctx "Some test_request" ?req ?cause]
    honours_context_test_client [of 200 test_response_text] sent refused result
  show ?thesis
    by (simp add: errors_Is_Errorf_w errors_Is_url_Error)
qed

text \<open>
  With a client whose transport does not look at the context, a call under a cancelled
  context returns the complete response of the server and a nil error.
\<close>

theorem Pack_cancelled_counterexample:
  "Pack test_std (stub_client 200 test_response_text) (Done context_Canceled)
       (Some test_request) =
     (Some test_response, None)"
  by (simp add: Pack_def Pack_request_stub stub_client_answers Unmarshal_test_response
      http_StatusOK_def)

subsection \<open>What \<open>Pack\<close> sends\<close>



text \<open>
  Claim C5. \<open>Pack\<close> checks no range. For every request whose numbers are all finite, with
  a context that is not nil and a URL that parses, \<open>json.Marshal\<close> writes the request,
  \<open>support_percentage\<close> being the \<open>SupportPercentage\<close> as given, negative or above 100 as
  well, and \<open>Pack\<close> returns what the exchange of that very request yields. Only a
  \<open>SupportPercentage\<close> that is an infinity or NaN is not sent: \<open>json.Marshal\<close> refuses it
  and \<open>Pack\<close> returns \<open>failed to marshal request\<close>.
\<close>

theorem Pack_sends_support_percentage_unchecked:
  "(finite_PackingRequest r \<and> ctx \<noteq> NoContext \<and>
    url_Parse std (baseURL c @ ''/api/v1/pack'') = None \<longrightarrow>
      (\<exists>text t.
         floatEncoder std (SupportPercentage (PackingOptions r)) = Inr t \<and>
         json_write std (marshal_PackingOptions (PackingOptions r)) =
           Inr (''{'' @ json_quote std ''support_percentage'' @ '':'' @ t @ ''}'') \<and>
         json_Marshal std (Some r) = Inr text \<and>
         Pack std c ctx (Some r) =
           (case httpClient c
                   \<lparr>Method = ''POST'', URL = baseURL c @ ''/api/v1/pack'',
                    Header = [(''Content-Type'', ''application/json'')], Body = text,
                    Ctx = ctx\<rparr> of
              Inl err \<Rightarrow> (None, Some (Errorf_w ''failed to send request: '' err))
            | Inr resp \<Rightarrow>
                (case Response.Body resp of
                   Inl err \<Rightarrow> (None, Some (Errorf_w ''failed to read response: '' err))
                 | Inr body \<Rightarrow>
                     (case json_Unmarshal std body zero_PackingResponse of
                        Inl err \<Rightarrow> (None, Some (Errorf_w ''failed to parse response: '' err))
                      | Inr response \<Rightarrow>
                          if StatusCode resp \<noteq> 200 then
                            if Error response \<noteq> [] then
                              (None, Some (ErrorString (''API error (status '' @
                                 show_int (StatusCode resp) @ ''): '' @ Error response)))
                            else
                              (None, Some (ErrorString (''API returned status '' @
                                 show_int (StatusCode resp) @ '': '' @ body)))
                          else (Some response, None)))))) \<and>
   member ''packing_options'' (marshal_PackingRequest r) =
     Some (JObject [(''support_percentage'', JFloat (SupportPercentage (PackingOptions r)))]) \<and>
   (\<not> float64_finite (SupportPercentage (PackingOptions r)) \<longrightarrow>
      (\<exists>e. Pack std c ctx (Some r) = (None, Some (Errorf_w ''failed to marshal request: '' e))))"
proof (intro conjI impI)
  assume h: "finite_PackingRequest r \<and> ctx \<noteq> NoContext \<and>
    url_Parse std (baseURL c @ ''/api/v1/pack'') = None"
  then obtain jsonData where jsonData: "json_Marshal std (Some r) = Inr jsonData"
    using Marshal_finite by blast
  from h obtain t where t: "floatEncoder std (SupportPercentage (PackingOptions r)) = Inr t"
    using floatEncoder_finite [of "SupportPercentage (PackingOptions r)" std]
    by (auto simp add: finite_PackingRequest_def)
  then have opts: "json_write std (marshal_PackingOptions (PackingOptions r)) =
      Inr (''{'' @ json_quote std ''support_percentage'' @ '':'' @ t @ ''}'')"
    by (simp add: write_PackingOptions)
  from h have built: "Pack_request std c ctx (Some r) =
      Inr \<lparr>Method = ''POST'', URL = baseURL c @ ''/api/v1/pack'',
           Header = [(''Content-Type'', ''application/json'')], Body = jsonData, Ctx = ctx\<rparr>"
    by (intro Pack_request_built jsonData) simp_all
  from t opts jsonData Pack_exchange [OF built]
  show "\<exists>text t.
         floatEncoder std (SupportPercentage (PackingOptions r)) = Inr t \<and>
         json_write std (marshal_PackingOptions (PackingOptions r)) =
           Inr (''{'' @ json_quote std ''support_percentage'' @ '':'' @ t @ ''}'') \<and>
         json_Marshal std (Some r) = Inr text \<and>
         Pack std c ctx (Some r) =
           (case httpClient c
                   \<lparr>Method = ''POST'', URL = baseURL c @ ''/api/v1/pack'',
                    Header = [(''Content-Type'', ''application/json'')], Body = text,
                    Ctx = ctx\<rparr> of
              Inl err \<Rightarrow> (None, Some (Errorf_w ''failed to send request: '' err))
            | Inr resp \<Rightarrow>
                (case Response.Body resp of
                   Inl err \<Rightarrow> (None, Some (Errorf_w ''failed to read response: '' err))
                 | Inr body \<Rightarrow>
                     (case json_Unmarshal std body zero_PackingResponse of
                        Inl err \<Rightarrow> (None, Some (Errorf_w ''failed to parse response: '' err))
                      | Inr response \<Rightarrow>
                          if StatusCode resp \<noteq> 200 then
                            if Error response \<noteq> [] then
                              (None, Some (ErrorString (''API error (status '' @
                                 show_int (StatusCode resp) @ ''): '' @ Error response)))
                            else
                              (None, Some (ErrorString (''API returned status '' @
                                 show_int (StatusCode resp) @ '': '' @ body)))
                          else (Some response, None))))"
    by blast
next
  show "member ''packing_options'' (marshal_PackingRequest r) =
     Some (JObject [(''support_percentage'', JFloat (SupportPercentage (PackingOptions r)))])"
    by (simp add: marshal_PackingRequest_def marshal_PackingOptions_def member_def members_def)
next
  assume "\<not> float64_finite (SupportPercentage (PackingOptions r))"
  then obtain e where "json_Marshal std (Some r) = Inl e"
    using Marshal_refuses by blast
  then show "\<exists>e. Pack std c ctx (Some r) =
      (None, Some (Errorf_w ''failed to marshal request: '' e))"
    by (auto simp add: Pack_def Pack_request_def)
qed

text \<open>A support percentage of -5 is sent and answered; NaN stops at \<open>json.Marshal\<close>.\<close>

theorem Pack_sends_support_percentage_unchecked_witness:
  "Pack test_std (test_client 200 test_response_text) Background
       (Some (test_request\<lparr>PackingOptions := \<lparr>SupportPercentage = Finite (- 5)\<rparr>\<rparr>)) =
     (Some test_response, None) \<and>
   json_Marshal test_std
       (Some (test_request\<lparr>PackingOptions := \<lparr>SupportPercentage = Finite (- 5)\<rparr>\<rparr>)) =
     Inr (test_request_text ''-5'') \<and>
   Pack test_std (test_client 200 test_response_text) Background
       (Some (test_request\<lparr>PackingOptions := \<lparr>SupportPercentage = NaN\<rparr>\<rparr>)) =
     (None, Some (Errorf_w ''failed to marshal request: '' (UnsupportedValueError ''NaN'')))"
proof -
  let ?c = "test_client 200 test_response_text"
  let ?r = "test_request\<lparr>PackingOptions := \<lparr>SupportPercentage = Finite (- 5)\<rparr>\<rparr>"
  let ?n = "test_request\<lparr>PackingOptions := \<lparr>SupportPercentage = NaN\<rparr>\<rparr>"
  have marshal: "json_Marshal test_std (Some ?r) = Inr (test_request_text ''-5'')"
    using Marshal_test_request_support [of "- 5"] by simp
  have "finite_PackingRequest ?r \<and> Background \<noteq> NoContext \<and>
      url_Parse test_std (baseURL ?c @ ''/api/v1/pack'') = None"
    by (simp add: finite_test_request url_Parse_test_std)
  with Pack_sends_support_percentage_unchecked [of ?r Background test_std ?c] marshal
  have sent: "Pack test_std ?c Background (Some ?r) = (Some test_response, None)"
    by (auto simp add: test_client_def NewWithHTTPClient_def test_server_def
        Unmarshal_test_response)
  have "json_Marshal test_std (Some ?n) = Inl (UnsupportedValueError ''NaN'')"
    by (simp add: json_Marshal_def marshal_PackingRequest_def marshal_Carton_def
      marshal_PalletConstraints_def marshal_PackingOptions_def test_request_def
      StandardPallet_def exact_def test_std_def show_int_1)
  then have "Pack test_std ?c Background (Some ?n) =
      (None, Some (Errorf_w ''failed to marshal request: '' (UnsupportedValueError ''NaN'')))"
    by (simp add: Pack_def Pack_request_def)
  with sent marshal show ?thesis
    by simp
qed

text \<open>
  A support percentage of 150 is sent: the request reaches the server with \<open>150\<close> in its
  body, and the server's answer comes back.
\<close>

theorem support_percentage_range_counterexample:
  "Pack_request test_std (test_client 200 test_response_text) Background
       (Some (test_request\<lparr>PackingOptions := \<lparr>SupportPercentage = Finite 150\<rparr>\<rparr>)) =
     Inr \<lparr>Method = ''POST'', URL = ''http://127.0.0.1:8080/api/v1/pack'',
          Header = [(''Content-Type'', ''application/json'')],
          Body = test_request_text ''150'', Ctx = Background\<rparr> \<and>
   Pack test_std (test_client 200 test_response_text) Background
       (Some (test_request\<lparr>PackingOptions := \<lparr>SupportPercentage = Finite 150\<rparr>\<rparr>)) =
     (Some test_response, None)"
proof -
  have marshal: "json_Marshal test_std
       (Some (test_request\<lparr>PackingOptions := \<lparr>SupportPercentage = Finite 150\<rparr>\<rparr>)) =
     Inr (test_request_text ''150'')"
    using Marshal_test_request_support [of 150] by simp
  have built: "Pack_request test_std (test_client 200 test_response_text) Background
       (Some (test_request\<lparr>PackingOptions := \<lparr>SupportPercentage = Finite 150\<rparr>\<rparr>)) =
     Inr \<lparr>Method = ''POST'', URL = ''http://127.0.0.1:8080/api/v1/pack'',
          Header = [(''Content-Type'', ''application/json'')],
          Body = test_request_text ''150'', Ctx = Background\<rparr>"
    using Pack_request_built [OF marshal _ url_Parse_test_std,
        of Background "test_client 200 test_response_text"]
    by (simp add: test_client_def NewWithHTTPClient_def)
  then show ?thesis
    by (simp add: Pack_def test_client_answers Unmarshal_test_response http_StatusOK_def)
qed

text \<open>
  Claim C6. Two calls to \<open>Pack\<close> whose requests are equal field by field, the numbers
  equal as \<open>float64\<close> with zeros of the same sign, send the same bytes, whatever the client,
  its base URL and the context. The body is the text \<open>json.Marshal\<close> writes for the request
  and has one fixed layout: the members \<open>cartons\<close>, \<open>pallet_constraints\<close> and
  \<open>packing_options\<close> in this order, the cartons in the order of the slice, every field
  under its tag in the order of declaration, every number as \<open>floatEncoder\<close> writes it.
\<close>

theorem request_body_deterministic:
  assumes "DeepEqual float64_same request1 request2"
    and "Pack_request std c1 ctx1 request1 = Inr req1"
    and "Pack_request std c2 ctx2 request2 = Inr req2"
  shows "Request.Body req1 = Request.Body req2 \<and>
     json_Marshal std request1 = Inr (Request.Body req1) \<and>
     (\<forall>r. request1 = Some r \<longrightarrow>
        (\<exists>cartons l w h g s.
           (case PackingRequest.Cartons r of
              None \<Rightarrow> cartons = ''null''
            | Some cs \<Rightarrow>
                (\<exists>ts. cartons = ''['' @ commas ts @ '']'' \<and>
                   list_all2
                     (\<lambda>c t. \<exists>cl cw ch cg.
                        floatEncoder std (Carton.Length c) = Inr cl \<and>
                        floatEncoder std (Carton.Width c) = Inr cw \<and>
                        floatEncoder std (Carton.Height c) = Inr ch \<and>
                        floatEncoder std (Carton.Weight c) = Inr cg \<and>
                        t = ''{'' @ json_quote std ''id'' @ '':'' @ json_quote std (ID c) @ '','' @
                            json_quote std ''length'' @ '':'' @ cl @ '','' @
                            json_quote std ''width'' @ '':'' @ cw @ '','' @
                            json_quote std ''height'' @ '':'' @ ch @ '','' @
                            json_quote std ''weight'' @ '':'' @ cg @ '','' @
                            json_quote std ''quantity'' @ '':'' @ show_int (Quantity c) @ '','' @
                            json_quote std ''fragile'' @ '':'' @
                              (if Fragile c then ''true'' else ''false'') @ '','' @
                            json_quote std ''allow_rotation'' @ '':'' @
                              (if AllowRotation c then ''true'' else ''false'') @ ''}'')
                     cs ts)) \<and>
           floatEncoder std (MaxLength (PalletConstraints r)) = Inr l \<and>
           floatEncoder std (MaxWidth (PalletConstraints r)) = Inr w \<and>
           floatEncoder std (MaxHeight (PalletConstraints r)) = Inr h \<and>
           floatEncoder std (MaxWeight (PalletConstraints r)) = Inr g \<and>
           floatEncoder std (SupportPercentage (PackingOptions r)) = Inr s \<and>
           Request.Body req1 =
             ''{'' @ json_quote std ''cartons'' @ '':'' @ cartons @ '','' @
             json_quote std ''pallet_constraints'' @ '':'' @
               ''{'' @ json_quote std ''max_length'' @ '':'' @ l @ '','' @
               json_quote std ''max_width'' @ '':'' @ w @ '','' @
               json_quote std ''max_height'' @ '':'' @ h @ '','' @
               json_quote std ''max_weight'' @ '':'' @ g @ ''}'' @ '','' @
             json_quote std ''packing_options'' @ '':'' @
               ''{'' @ json_quote std ''support_percentage'' @ '':'' @ s @ ''}'' @ ''}''))"
proof -
  from assms(1) have same: "request1 = request2"
    by (rule DeepEqual_same)
  from assms(2) have body1: "json_Marshal std request1 = Inr (Request.Body req1)"
    by (auto simp add: Pack_request_def http_NewRequestWithContext_def
        split: sum.splits if_splits option.splits)
  from assms(3) have body2: "json_Marshal std request2 = Inr (Request.Body req2)"
    by (auto simp add: Pack_request_def http_NewRequestWithContext_def
        split: sum.splits if_splits option.splits)
  from same body1 body2 have bodies: "Request.Body req1 = Request.Body req2"
    by simp
  have layout: "\<exists>cartons l w h g s.
           (case PackingRequest.Cartons r of
              None \<Rightarrow> cartons = ''null''
            | Some cs \<Rightarrow>
                (\<exists>ts. cartons = ''['' @ commas ts @ '']'' \<and>
                   list_all2
                     (\<lambda>c t. \<exists>cl cw ch cg.
                        floatEncoder std (Carton.Length c) = Inr cl \<and>
                        floatEncoder std (Carton.Width c) = Inr cw \<and>
                        floatEncoder std (Carton.Height c) = Inr ch \<and>
                        floatEncoder std (Carton.Weight c) = Inr cg \<and>
                        t = ''{'' @ json_quote std ''id'' @ '':'' @ json_quote std (ID c) @ '','' @
                            json_quote std ''length'' @ '':'' @ cl @ '','' @
                            json_quote std ''width'' @ '':'' @ cw @ '','' @
                            json_quote std ''height'' @ '':'' @ ch @ '','' @
                            json_quote std ''weight'' @ '':'' @ cg @ '','' @
                            json_quote std ''quantity'' @ '':'' @ show_int (Quantity c) @ '','' @
                            json_quote std ''fragile'' @ '':'' @
                              (if Fragile c then ''true'' else ''false'') @ '','' @
                            json_quote std ''allow_rotation'' @ '':'' @
                              (if AllowRotation c then ''true'' else ''false'') @ ''}'')
                     cs ts)) \<and>
           floatEncoder std (MaxLength (PalletConstraints r)) = Inr l \<and>
           floatEncoder std (MaxWidth (PalletConstraints r)) = Inr w \<and>
           floatEncoder std (MaxHeight (PalletConstraints r)) = Inr h \<and>
           floatEncoder std (MaxWeight (PalletConstraints r)) = Inr g \<and>
           floatEncoder std (SupportPercentage (PackingOptions r)) = Inr s \<and>
           Request.Body req1 =
             ''{'' @ json_quote std ''cartons'' @ '':'' @ cartons @ '','' @
             json_quote std ''pallet_constraints'' @ '':'' @
               ''{'' @ json_quote std ''max_length'' @ '':'' @ l @ '','' @
               json_quote std ''max_width'' @ '':'' @ w @ '','' @
               json_quote std ''max_height'' @ '':'' @ h @ '','' @
               json_quote std ''max_weight'' @ '':'' @ g @ ''}'' @ '','' @
             json_quote std ''packing_options'' @ '':'' @
               ''{'' @ json_quote std ''support_percentage'' @ '':'' @ s @ ''}'' @ ''}''"
    if r: "request1 = Some r" for r
  proof -
    from body1 r obtain cartons constraints options where
      cw: "json_write std (case PackingRequest.Cartons r of
                       None \<Rightarrow> JNull
                     | Some cs \<Rightarrow> JArray (map marshal_Carton cs)) = Inr cartons"
      and pw: "json_write std (marshal_PalletConstraints (PalletConstraints r)) = Inr constraints"
      and ow: "json_write std (marshal_PackingOptions (PackingOptions r)) = Inr options"
      and body: "Request.Body req1 =
              ''{'' @ json_quote std ''cartons'' @ '':'' @ cartons @ '','' @
              json_quote std ''pallet_constraints'' @ '':'' @ constraints @ '','' @
              json_quote std ''packing_options'' @ '':'' @ options @ ''}''"
      using json_Marshal_layout [of std r "Request.Body req1"] by auto
    have cartons: "case PackingRequest.Cartons r of
        None \<Rightarrow> cartons = ''null''
      | Some cs \<Rightarrow>
          (\<exists>ts. cartons = ''['' @ commas ts @ '']'' \<and>
             list_all2
               (\<lambda>c t. \<exists>cl cw ch cg.
                  floatEncoder std (Carton.Length c) = Inr cl \<and>
                  floatEncoder std (Carton.Width c) = Inr cw \<and>
                  floatEncoder std (Carton.Height c) = Inr ch \<and>
                  floatEncoder std (Carton.Weight c) = Inr cg \<and>
                  t = ''{'' @ json_quote std ''id'' @ '':'' @ json_quote std (ID c) @ '','' @
                      json_quote std ''length'' @ '':'' @ cl @ '','' @
                      json_quote std ''width'' @ '':'' @ cw @ '','' @
                      json_quote std ''height'' @ '':'' @ ch @ '','' @
                      json_quote std ''weight'' @ '':'' @ cg @ '','' @
                      json_quote std ''quantity'' @ '':'' @ show_int (Quantity c) @ '','' @
                      json_quote std ''fragile'' @ '':'' @
                        (if Fragile c then ''true'' else ''false'') @ '','' @
                      json_quote std ''allow_rotation'' @ '':'' @
                        (if AllowRotation c then ''true'' else ''false'') @ ''}'')
               cs ts)"
    proof (cases "PackingRequest.Cartons r")
      case None
      with cw show ?thesis by simp
    next
      case (Some cs)
      with write_cartons_member_text [OF cw] obtain ts where
        ts: "list_all2 (\<lambda>c t. json_write std (marshal_Carton c) = Inr t) cs ts"
        and c: "cartons = ''['' @ commas ts @ '']''"
        by auto
      from ts have "list_all2
               (\<lambda>c t. \<exists>cl cw ch cg.
                  floatEncoder std (Carton.Length c) = Inr cl \<and>
                  floatEncoder std (Carton.Width c) = Inr cw \<and>
                  floatEncoder std (Carton.Height c) = Inr ch \<and>
                  floatEncoder std (Carton.Weight c) = Inr cg \<and>
                  t = ''{'' @ json_quote std ''id'' @ '':'' @ json_quote std (ID c) @ '','' @
                      json_quote std ''length'' @ '':'' @ cl @ '','' @
                      json_quote std ''width'' @ '':'' @ cw @ '','' @
                      json_quote std ''height'' @ '':'' @ ch @ '','' @
                      json_quote std ''weight'' @ '':'' @ cg @ '','' @
                      json_quote std ''quantity'' @ '':'' @ show_int (Quantity c) @ '','' @
                      json_quote std ''fragile'' @ '':'' @
                        (if Fragile c then ''true'' else ''false'') @ '','' @
                      json_quote std ''allow_rotation'' @ '':'' @
                        (if AllowRotation c then ''true'' else ''false'') @ ''}'')
               cs ts"
        by (rule list_all2_mono) (rule write_Carton_text)
      with Some c show ?thesis by auto
    qed
    from write_PalletConstraints_text [OF pw] write_PackingOptions_text [OF ow] cartons body
    show ?thesis
      by (elim exE conjE) (intro exI conjI, assumption+, simp)
  qed
  from bodies body1 layout show ?thesis
    by blast
qed

text \<open>The request of \<open>TestPack\<close>, sent by two clients under two contexts.\<close>

theorem request_body_deterministic_witness:
  "DeepEqual float64_same (Some test_request) (Some test_request) \<and>
   Request.Body
     \<lparr>Method = ''POST'', URL = ''http://127.0.0.1:8080/api/v1/pack'',
      Header = [(''Content-Type'', ''application/json'')],
      Body = test_request_text ''80'', Ctx = Background\<rparr> =
   Request.Body
     \<lparr>Method = ''POST'', URL = ''http://127.0.0.1:8080/api/v1/pack'',
      Header = [(''Content-Type'', ''application/json'')],
      Body = test_request_text ''80'', Ctx = Done context_DeadlineExceeded\<rparr> \<and>
   json_Marshal test_std (Some test_request) = Inr (test_request_text ''80'')"
  using request_body_deterministic
    [OF DeepEqual_same_test Pack_request_test [of Background 200 test_response_text]
      Pack_request_test [of "Done context_DeadlineExceeded" 502 error_page_text]]
    DeepEqual_same_test
  by simp

text \<open>
  Equality as Go's \<open>==\<close> has it is not enough: two requests that differ only in the sign
  of a zero support percentage are equal for \<open>reflect.DeepEqual\<close>, and their bodies end in
  \<open>0\<close> and \<open>-0\<close>.
\<close>

theorem request_body_deterministic_counterexample:
  "DeepEqual float64_eq
     (Some (test_request\<lparr>PackingOptions := \<lparr>SupportPercentage = Finite 0\<rparr>\<rparr>))
     (Some (test_request\<lparr>PackingOptions := \<lparr>SupportPercentage = NegZero\<rparr>\<rparr>)) \<and>
   Pack_request test_std (test_client 200 test_response_text) Background
       (Some (test_request\<lparr>PackingOptions := \<lparr>SupportPercentage = Finite 0\<rparr>\<rparr>)) =
     Inr \<lparr>Method = ''POST'', URL = ''http://127.0.0.1:8080/api/v1/pack'',
          Header = [(''Content-Type'', ''application/json'')],
          Body = test_request_text ''0'', Ctx = Background\<rparr> \<and>
   Pack_request test_std (test_client 200 test_response_text) Background
       (Some (test_request\<lparr>PackingOptions := \<lparr>SupportPercentage = NegZero\<rparr>\<rparr>)) =
     Inr \<lparr>Method = ''POST'', URL = ''http://127.0.0.1:8080/api/v1/pack'',
          Header = [(''Content-Type'', ''application/json'')],
          Body = test_request_text ''-0'', Ctx = Background\<rparr> \<and>
   test_request_text ''0'' \<noteq> test_request_text ''-0''"
proof -
  have "DeepEqual float64_eq
     (Some (test_request\<lparr>PackingOptions := \<lparr>SupportPercentage = Finite 0\<rparr>\<rparr>))
     (Some (test_request\<lparr>PackingOptions := \<lparr>SupportPercentage = NegZero\<rparr>\<rparr>))"
    by (simp add: DeepEqual_def equal_PackingRequest_def equal_Carton_def
        equal_PalletConstraints_def test_request_def StandardPallet_def)
  moreover have "Pack_request test_std (test_client 200 test_response_text) Background
       (Some (test_request\<lparr>PackingOptions := \<lparr>SupportPercentage = Finite 0\<rparr>\<rparr>)) =
     Inr \<lparr>Method = ''POST'', URL = ''http://127.0.0.1:8080/api/v1/pack'',
          Header = [(''Content-Type'', ''application/json'')],
          Body = test_request_text ''0'', Ctx = Background\<rparr>"
    using Pack_request_built [OF Marshal_test_request_zero _ url_Parse_test_std,
        of Background "test_client 200 test_response_text"]
    by (simp add: test_client_def NewWithHTTPClient_def)
  moreover have "Pack_request test_std (test_client 200 test_response_text) Background
       (Some (test_request\<lparr>PackingOptions := \<lparr>SupportPercentage = NegZero\<rparr>\<rparr>)) =
     Inr \<lparr>Method = ''POST'', URL = ''http://127.0.0.1:8080/api/v1/pack'',
          Header = [(''Content-Type'', ''application/json'')],
          Body = test_request_text ''-0'', Ctx = Background\<rparr>"
    using Pack_request_built [OF Marshal_test_request_negzero _ url_Parse_test_std,
        of Background "test_client 200 test_response_text"]
    by (simp add: test_client_def NewWithHTTPClient_def)
  moreover have "test_request_text ''0'' \<noteq> test_request_text ''-0''"
    by (simp add: test_request_text_def)
  ultimately show ?thesis
    by blast
qed

subsection \<open>Unit conversions\<close>

text \<open>
  Claim C8. Over exact arithmetic each conversion pair is a mutual inverse:
  \<open>MMToInches (InchesToMM x) = x\<close>, \<open>InchesToMM (MMToInches x) = x\<close>,
  \<open>GramsToPounds (PoundsToGrams x) = x\<close> and \<open>PoundsToGrams (GramsToPounds x) = x\<close>,
  for every real \<open>x\<close>: one function multiplies by the constant the other divides by
  (25.4 for length, 453.592 for weight), and the constant is not zero.
\<close>

theorem conversions_inverse:
  "MMToInches exact (InchesToMM exact x) = x \<and>
   InchesToMM exact (MMToInches exact x) = x \<and>
   GramsToPounds exact (PoundsToGrams exact x) = x \<and>
   PoundsToGrams exact (GramsToPounds exact x) = x"
  by (simp add: MMToInches_def InchesToMM_def GramsToPounds_def PoundsToGrams_def exact_def)

subsection \<open>Pallet presets\<close>

text \<open>The two constants and the four literals of the presets, as \<open>float64\<close>.\<close>

lemma binary64_25_4: "binary64 25.4 = 7149464408450662 / 2 ^ 48"
  using binary64_normal [of 4 "25.4"] by (simp add: round_half_even_def Let_def)

lemma binary64_453_592: "binary64 453.592 = 7979674852258742 / 2 ^ 44"
  using binary64_normal [of 8 "453.592"] by (simp add: round_half_even_def Let_def)

lemma binary64_1016: "binary64 1016.0 = 1016"
proof -
  have "binary64 1016 = 1016"
    using binary64_normal [of 9 "1016"] by (simp add: round_half_even_def Let_def)
  then show ?thesis by simp
qed

lemma binary64_1828_8: "binary64 1828.8 = 8043147459506995 / 2 ^ 42"
  using binary64_normal [of 10 "1828.8"] by (simp add: round_half_even_def Let_def)

lemma binary64_1219_2: "binary64 1219.2 = 5362098306337997 / 2 ^ 42"
  using binary64_normal [of 10 "1219.2"] by (simp add: round_half_even_def Let_def)

lemma binary64_680388: "binary64 680388.0 = 680388"
proof -
  have "binary64 680388 = 680388"
    using binary64_normal [of 19 "680388"] by (simp add: round_half_even_def Let_def)
  then show ?thesis by simp
qed

text \<open>The four products, as Go computes them.\<close>

lemma InchesToMM_binary64_40: "InchesToMM binary64 40 = 1016"
  unfolding InchesToMM_def binary64_25_4
  using binary64_normal [of 9 "40 * (7149464408450662 / 2 ^ 48)"]
  by (simp add: round_half_even_def Let_def)

lemma InchesToMM_binary64_72: "InchesToMM binary64 72 = 8043147459506995 / 2 ^ 42"
  unfolding InchesToMM_def binary64_25_4
  using binary64_normal [of 10 "72 * (7149464408450662 / 2 ^ 48)"]
  by (simp add: round_half_even_def Let_def)

lemma InchesToMM_binary64_48: "InchesToMM binary64 48 = 5362098306337996 / 2 ^ 42"
  unfolding InchesToMM_def binary64_25_4
  using binary64_normal [of 10 "48 * (7149464408450662 / 2 ^ 48)"]
  by (simp add: round_half_even_def Let_def)

lemma PoundsToGrams_binary64_1500: "PoundsToGrams binary64 1500 = 680388"
  unfolding PoundsToGrams_def binary64_453_592
  using binary64_normal [of 19 "1500 * (7979674852258742 / 2 ^ 44)"]
  by (simp add: round_half_even_def Let_def)

text \<open>
  Claim C9. Over exact arithmetic \<open>StandardPallet\<close> is the pallet whose sides are
  \<open>InchesToMM 40 = 1016.0\<close>, \<open>InchesToMM 72 = 1828.8\<close>, \<open>InchesToMM 48 = 1219.2\<close> and whose
  weight limit is \<open>PoundsToGrams 1500 = 680388.0\<close>, and \<open>StandardPallet4048\<close> is the same
  pallet with width \<open>InchesToMM 48 = 1219.2\<close>. In \<open>float64\<close>, \<open>InchesToMM 40\<close>,
  \<open>InchesToMM 72\<close> and \<open>PoundsToGrams 1500\<close> return exactly the preset's length, width and
  weight limit, and \<open>InchesToMM 48\<close> returns the \<open>float64\<close> next below the preset's height
  \<open>1219.2\<close>, one unit in the last place (\<open>1 / 2 ^ 42\<close>) away.
\<close>

theorem presets_match_conversions:
  "StandardPallet exact =
     \<lparr>MaxLength = Finite (InchesToMM exact 40), MaxWidth = Finite (InchesToMM exact 72),
      MaxHeight = Finite (InchesToMM exact 48), MaxWeight = Finite (PoundsToGrams exact 1500)\<rparr> \<and>
   InchesToMM exact 40 = 1016.0 \<and> InchesToMM exact 72 = 1828.8 \<and>
   InchesToMM exact 48 = 1219.2 \<and> PoundsToGrams exact 1500 = 680388.0 \<and>
   StandardPallet4048 exact =
     (StandardPallet exact)\<lparr>MaxWidth := Finite (InchesToMM exact 48)\<rparr> \<and>
   Finite (InchesToMM binary64 40) = MaxLength (StandardPallet binary64) \<and>
   Finite (InchesToMM binary64 72) = MaxWidth (StandardPallet binary64) \<and>
   Finite (PoundsToGrams binary64 1500) = MaxWeight (StandardPallet binary64) \<and>
   Finite (InchesToMM binary64 48 + 1 / 2 ^ 42) = MaxHeight (StandardPallet binary64) \<and>
   MaxHeight (StandardPallet4048 binary64) = MaxHeight (StandardPallet binary64) \<and>
   MaxWidth (StandardPallet4048 binary64) = MaxHeight (StandardPallet binary64)"
proof -
  have "StandardPallet exact =
     \<lparr>MaxLength = Finite (InchesToMM exact 40), MaxWidth = Finite (InchesToMM exact 72),
      MaxHeight = Finite (InchesToMM exact 48), MaxWeight = Finite (PoundsToGrams exact 1500)\<rparr>"
    by (simp add: StandardPallet_def InchesToMM_def PoundsToGrams_def exact_def)
  moreover have "InchesToMM exact 40 = 1016.0 \<and> InchesToMM exact 72 = 1828.8 \<and>
     InchesToMM exact 48 = 1219.2 \<and> PoundsToGrams exact 1500 = 680388.0"
    by (simp add: InchesToMM_def PoundsToGrams_def exact_def)
  moreover have "StandardPallet4048 exact =
     (StandardPallet exact)\<lparr>MaxWidth := Finite (InchesToMM exact 48)\<rparr>"
    by (simp add: StandardPallet_def StandardPallet4048_def InchesToMM_def exact_def)
  moreover have "Finite (InchesToMM binary64 40) = MaxLength (StandardPallet binary64)"
    unfolding StandardPallet_def InchesToMM_binary64_40 binary64_1016 by simp
  moreover have "Finite (InchesToMM binary64 72) = MaxWidth (StandardPallet binary64)"
    unfolding StandardPallet_def InchesToMM_binary64_72 binary64_1828_8 by simp
  moreover have "Finite (PoundsToGrams binary64 1500) = MaxWeight (StandardPallet binary64)"
    unfolding StandardPallet_def PoundsToGrams_binary64_1500 binary64_680388 by simp
  moreover have "Finite (InchesToMM binary64 48 + 1 / 2 ^ 42) =
     MaxHeight (StandardPallet binary64)"
    unfolding StandardPallet_def InchesToMM_binary64_48 binary64_1219_2 by simp
  moreover have "MaxHeight (StandardPallet4048 binary64) = MaxHeight (StandardPallet binary64)"
    by (simp add: StandardPallet_def StandardPallet4048_def)
  moreover have "MaxWidth (StandardPallet4048 binary64) = MaxHeight (StandardPallet binary64)"
    by (simp add: StandardPallet_def StandardPallet4048_def)
  ultimately show ?thesis
    by blast
qed

text \<open>
  As Go computes it, \<open>InchesToMM(48)\<close> is not the height of the preset: the exact product
  of 48 and the \<open>float64\<close> nearest to 25.4 lies halfway between two neighbours and is
  rounded to the even one, below the \<open>float64\<close> nearest to 1219.2.
\<close>

theorem presets_match_conversions_counterexample:
  "MaxHeight (StandardPallet binary64) \<noteq> Finite (InchesToMM binary64 48) \<and>
   MaxWidth (StandardPallet4048 binary64) \<noteq> Finite (InchesToMM binary64 48)"
  unfolding StandardPallet_def StandardPallet4048_def InchesToMM_binary64_48 binary64_1219_2
  by simp

end
